theory Spec2Isabelle
  imports Complex_Main
begin

section \<open>AquaHarvest assessment service: the assessment pipeline\<close>

text \<open>
  A shallow embedding of \<^verbatim>\<open>backend/assessment-service/src/services/assessmentService.js\<close>,
  of the two cache operations of \<^verbatim>\<open>cache/redis.js\<close> and of \<^verbatim>\<open>saveAssessment\<close> of
  \<^verbatim>\<open>database/assessmentRepository.js\<close> that it calls.
\<close>

subsection \<open>Numbers\<close>

text \<open>
  A JavaScript number is a double. A finite double is kept as the real number it stands
  for; every arithmetic operation rounds its exact result to the nearest double, ties
  to the even mantissa, as IEEE 754 does. \<open>round_even\<close> rounds to the nearest integer
  with ties to even; \<open>expo x\<close> is the binary exponent of \<open>x\<close>, kept within the range of
  the doubles (at least -1022, where the subnormal numbers begin, at most 1024);
  \<open>dbl x\<close> is \<open>x\<close> rounded to 53 significant bits at that exponent.
  A zero carries no sign in the model.
\<close>

definition round_even :: "real \<Rightarrow> int" where
  "round_even y =
     (let f = \<lfloor>y\<rfloor>
      in if y - of_int f < 1 / 2 then f
         else if y - of_int f > 1 / 2 then f + 1
         else if even f then f else f + 1)"

function expo_from :: "real \<Rightarrow> int \<Rightarrow> int" where
  "expo_from m e = (if m < 1 \<and> - 1022 < e then expo_from (2 * m) (e - 1) else e)"
  by pat_completeness auto
termination
  by (relation "measure (\<lambda>(m, e). nat (e + 1022))") auto

declare expo_from.simps [simp del]

definition expo :: "real \<Rightarrow> int" where
  "expo x = expo_from (\<bar>x\<bar> / 2 ^ 1024) 1024"

definition dbl :: "real \<Rightarrow> real" where
  "dbl x = sgn x * (of_int (round_even (\<bar>x\<bar> / 2 powi (expo x - 52))) * 2 powi (expo x - 52))"

text \<open>
  A value where the service expects a number: a finite double, an infinity, \<^verbatim>\<open>NaN\<close>,
  \<^verbatim>\<open>null\<close>, \<^verbatim>\<open>undefined\<close> (also a field that is absent), a function or an object. The last
  two are what a table gives for a key it inherits from \<^verbatim>\<open>Object.prototype\<close>.
\<close>

datatype jsnum = Num real | PosInf | NegInf | NaN | Null | Undefined | Func | Obj

text \<open>The double nearest to an exact result, an infinity when it is out of range.\<close>

definition fl :: "real \<Rightarrow> jsnum" where
  "fl x = (if 2 ^ 1024 \<le> \<bar>dbl x\<bar> then (if 0 < x then PosInf else NegInf) else Num (dbl x))"

text \<open>The conversion to a number that arithmetic, \<^verbatim>\<open>Math\<close> and comparisons apply.\<close>

fun to_number :: "jsnum \<Rightarrow> jsnum" where
  "to_number (Num v) = Num v"
| "to_number PosInf = PosInf"
| "to_number NegInf = NegInf"
| "to_number Null = Num 0"
| "to_number x = NaN"

fun plus_n :: "jsnum \<Rightarrow> jsnum \<Rightarrow> jsnum" where
  "plus_n (Num a) (Num b) = fl (a + b)"
| "plus_n (Num a) PosInf = PosInf"
| "plus_n (Num a) NegInf = NegInf"
| "plus_n PosInf (Num b) = PosInf"
| "plus_n NegInf (Num b) = NegInf"
| "plus_n PosInf PosInf = PosInf"
| "plus_n NegInf NegInf = NegInf"
| "plus_n x y = NaN"

fun negate_n :: "jsnum \<Rightarrow> jsnum" where
  "negate_n (Num a) = Num (- a)"
| "negate_n PosInf = NegInf"
| "negate_n NegInf = PosInf"
| "negate_n x = NaN"

fun times_n :: "jsnum \<Rightarrow> jsnum \<Rightarrow> jsnum" where
  "times_n (Num a) (Num b) = fl (a * b)"
| "times_n (Num a) PosInf = (if 0 < a then PosInf else if a < 0 then NegInf else NaN)"
| "times_n (Num a) NegInf = (if 0 < a then NegInf else if a < 0 then PosInf else NaN)"
| "times_n PosInf (Num b) = (if 0 < b then PosInf else if b < 0 then NegInf else NaN)"
| "times_n NegInf (Num b) = (if 0 < b then NegInf else if b < 0 then PosInf else NaN)"
| "times_n PosInf PosInf = PosInf"
| "times_n PosInf NegInf = NegInf"
| "times_n NegInf PosInf = NegInf"
| "times_n NegInf NegInf = PosInf"
| "times_n x y = NaN"

text \<open>A zero divisor counts as positive.\<close>

fun divide_n :: "jsnum \<Rightarrow> jsnum \<Rightarrow> jsnum" where
  "divide_n (Num a) (Num b) =
     (if b \<noteq> 0 then fl (a / b)
      else if 0 < a then PosInf else if a < 0 then NegInf else NaN)"
| "divide_n (Num a) PosInf = Num 0"
| "divide_n (Num a) NegInf = Num 0"
| "divide_n PosInf (Num b) = (if 0 \<le> b then PosInf else NegInf)"
| "divide_n NegInf (Num b) = (if 0 \<le> b then NegInf else PosInf)"
| "divide_n x y = NaN"

fun min_n :: "jsnum \<Rightarrow> jsnum \<Rightarrow> jsnum" where
  "min_n (Num a) (Num b) = Num (min a b)"
| "min_n (Num a) PosInf = Num a"
| "min_n PosInf (Num b) = Num b"
| "min_n PosInf PosInf = PosInf"
| "min_n NegInf (Num b) = NegInf"
| "min_n (Num a) NegInf = NegInf"
| "min_n NegInf PosInf = NegInf"
| "min_n PosInf NegInf = NegInf"
| "min_n NegInf NegInf = NegInf"
| "min_n x y = NaN"

definition round_half_up :: "real \<Rightarrow> real" where
  "round_half_up x = of_int \<lfloor>x + 1 / 2\<rfloor>"

fun round_n :: "jsnum \<Rightarrow> jsnum" where
  "round_n (Num v) = Num (round_half_up v)"
| "round_n PosInf = PosInf"
| "round_n NegInf = NegInf"
| "round_n x = NaN"

fun less_n :: "jsnum \<Rightarrow> jsnum \<Rightarrow> bool" where
  "less_n (Num a) (Num b) = (a < b)"
| "less_n (Num a) PosInf = True"
| "less_n NegInf (Num b) = True"
| "less_n NegInf PosInf = True"
| "less_n x y = False"

fun less_eq_n :: "jsnum \<Rightarrow> jsnum \<Rightarrow> bool" where
  "less_eq_n (Num a) (Num b) = (a \<le> b)"
| "less_eq_n (Num a) PosInf = True"
| "less_eq_n NegInf (Num b) = True"
| "less_eq_n NegInf PosInf = True"
| "less_eq_n PosInf PosInf = True"
| "less_eq_n NegInf NegInf = True"
| "less_eq_n x y = False"

text \<open>
  The operators \<^verbatim>\<open>+\<close>, \<^verbatim>\<open>-\<close>, \<^verbatim>\<open>*\<close>, \<^verbatim>\<open>/\<close>, \<^verbatim>\<open>Math.min\<close>, \<^verbatim>\<open>Math.round\<close> (the nearest
  integer, halves towards plus infinity), \<^verbatim>\<open><\<close>, \<^verbatim>\<open>>\<close>, \<^verbatim>\<open><=\<close> and \<^verbatim>\<open>>=\<close>. The service
  applies \<^verbatim>\<open>+\<close> to numbers only, never to a string, a function or an object.
\<close>

definition js_plus :: "jsnum \<Rightarrow> jsnum \<Rightarrow> jsnum" where
  "js_plus x y = plus_n (to_number x) (to_number y)"

definition js_minus :: "jsnum \<Rightarrow> jsnum \<Rightarrow> jsnum" where
  "js_minus x y = plus_n (to_number x) (negate_n (to_number y))"

definition js_times :: "jsnum \<Rightarrow> jsnum \<Rightarrow> jsnum" where
  "js_times x y = times_n (to_number x) (to_number y)"

definition js_divide :: "jsnum \<Rightarrow> jsnum \<Rightarrow> jsnum" where
  "js_divide x y = divide_n (to_number x) (to_number y)"

definition js_min :: "jsnum \<Rightarrow> jsnum \<Rightarrow> jsnum" where
  "js_min x y = min_n (to_number x) (to_number y)"

definition js_round :: "jsnum \<Rightarrow> jsnum" where
  "js_round x = round_n (to_number x)"

definition js_lt :: "jsnum \<Rightarrow> jsnum \<Rightarrow> bool" where
  "js_lt x y = less_n (to_number x) (to_number y)"

definition js_gt :: "jsnum \<Rightarrow> jsnum \<Rightarrow> bool" where
  "js_gt x y = less_n (to_number y) (to_number x)"

definition js_le :: "jsnum \<Rightarrow> jsnum \<Rightarrow> bool" where
  "js_le x y = less_eq_n (to_number x) (to_number y)"

definition js_ge :: "jsnum \<Rightarrow> jsnum \<Rightarrow> bool" where
  "js_ge x y = less_eq_n (to_number y) (to_number x)"

text \<open>A number that is not negative: a finite one from zero on, or plus infinity.\<close>

fun nonneg :: "jsnum \<Rightarrow> bool" where
  "nonneg (Num v) = (0 \<le> v)"
| "nonneg PosInf = True"
| "nonneg x = False"

text \<open>Truthiness, and \<^verbatim>\<open>x || y\<close>.\<close>

fun truthy :: "jsnum \<Rightarrow> bool" where
  "truthy (Num v) = (v \<noteq> 0)"
| "truthy PosInf = True"
| "truthy NegInf = True"
| "truthy Func = True"
| "truthy Obj = True"
| "truthy x = False"

definition js_or :: "jsnum \<Rightarrow> jsnum \<Rightarrow> jsnum" where
  "js_or x y = (if truthy x then x else y)"

definition truthy_str :: "string option \<Rightarrow> bool" where
  "truthy_str x = (case x of None \<Rightarrow> False | Some s \<Rightarrow> s \<noteq> [])"

definition or_str :: "string option \<Rightarrow> string \<Rightarrow> string" where
  "or_str x dflt = (if truthy_str x then the x else dflt)"

definition or_null_str :: "string option \<Rightarrow> string option" where
  "or_null_str x = (if truthy_str x then x else None)"

text \<open>
  What \<^verbatim>\<open>JSON.parse(JSON.stringify(x))\<close> gives back for the value of a field: a number
  that is not finite has become \<^verbatim>\<open>null\<close>, a function is left out, the rest is kept.
\<close>

fun json_num :: "jsnum \<Rightarrow> jsnum" where
  "json_num PosInf = Null"
| "json_num NegInf = Null"
| "json_num NaN = Null"
| "json_num Func = Undefined"
| "json_num x = x"

text \<open>A number of the request that may be absent.\<close>

definition of_opt :: "real option \<Rightarrow> jsnum" where
  "of_opt x = (case x of None \<Rightarrow> Undefined | Some v \<Rightarrow> Num v)"

subsection \<open>The tables of the service\<close>

text \<open>
  The tables are object literals indexed by a string. A key the literal has gives its
  number; a key it inherits from \<^verbatim>\<open>Object.prototype\<close> gives a function, or the prototype
  object for \<^verbatim>\<open>__proto__\<close>; any other key gives \<^verbatim>\<open>undefined\<close>. A literal such as \<^verbatim>\<open>0.15\<close>
  is the double nearest to it, \<open>dbl 0.15\<close>.
\<close>

definition inherited_functions :: "string list" where
  "inherited_functions =
     [''constructor'', ''hasOwnProperty'', ''isPrototypeOf'', ''propertyIsEnumerable'',
      ''toLocaleString'', ''toString'', ''valueOf'', ''__defineGetter__'',
      ''__defineSetter__'', ''__lookupGetter__'', ''__lookupSetter__'']"

definition inherited :: "string \<Rightarrow> bool" where
  "inherited key = (key = ''__proto__'' \<or> key \<in> set inherited_functions)"

definition lookup :: "(string \<times> real) list \<Rightarrow> string \<Rightarrow> jsnum" where
  "lookup table key =
     (case map_of table key of
        Some v \<Rightarrow> Num v
      | None \<Rightarrow> if key = ''__proto__'' then Obj
                else if key \<in> set inherited_functions then Func
                else Undefined)"

text \<open>\<^verbatim>\<open>table[key] || dflt\<close>.\<close>

definition lookup_or :: "(string \<times> real) list \<Rightarrow> string \<Rightarrow> real \<Rightarrow> jsnum" where
  "lookup_or table key dflt = js_or (lookup table key) (Num dflt)"

definition waterCosts :: "(string \<times> real) list" where
  "waterCosts = [(''north'', 25), (''south'', 30), (''east'', 20), (''west'', 35), (''central'', 28)]"

record building_coefficient =
  users :: jsnum
  daily_usage :: jsnum

definition buildingCoefficients :: "(string \<times> building_coefficient) list" where
  "buildingCoefficients =
     [(''residential'', \<lparr>users = Num 4, daily_usage = Num 150\<rparr>),
      (''commercial'', \<lparr>users = Num 25, daily_usage = Num 50\<rparr>),
      (''industrial'', \<lparr>users = Num 100, daily_usage = Num 200\<rparr>),
      (''institutional'', \<lparr>users = Num 50, daily_usage = Num 80\<rparr>)]"

text \<open>
  \<^verbatim>\<open>this.buildingCoefficients[key]\<close>: \<open>None\<close> is \<^verbatim>\<open>undefined\<close>, which has no fields to read;
  the function or object of an inherited key has neither \<^verbatim>\<open>users\<close> nor \<^verbatim>\<open>daily_usage\<close>.
\<close>

definition lookup_building :: "string \<Rightarrow> building_coefficient option" where
  "lookup_building key =
     (case map_of buildingCoefficients key of
        Some c \<Rightarrow> Some c
      | None \<Rightarrow> if inherited key then Some \<lparr>users = Undefined, daily_usage = Undefined\<rparr>
                else None)"

definition storageRecommendations :: "(string \<times> real) list" where
  "storageRecommendations =
     [(''residential'', dbl 0.15), (''commercial'', dbl 0.12), (''industrial'', dbl 0.10),
      (''institutional'', dbl 0.18)]"

definition runoffCoefficients :: "(string \<times> real) list" where
  "runoffCoefficients =
     [(''concrete'', dbl 0.90), (''tile'', dbl 0.85), (''metal'', dbl 0.95),
      (''asbestos'', dbl 0.82), (''green'', dbl 0.60)]"

definition regionalRainfall :: "(string \<times> real) list" where
  "regionalRainfall =
     [(''north'', 650), (''south'', 920), (''east'', 1200), (''west'', 550), (''central'', 850)]"

definition roofEstimations :: "(string \<times> real) list" where
  "roofEstimations =
     [(''residential'', 100), (''commercial'', 250), (''industrial'', 500), (''institutional'', 200)]"

subsection \<open>The logger\<close>

text \<open>
  \<^verbatim>\<open>utils/logger.js\<close> exports \<^verbatim>\<open>{...logger, logAssessment, ...}\<close>: a copy of the own
  enumerable properties of the logger that the logging library made, and the methods the
  file adds. Whether the copy has the level methods \<^verbatim>\<open>info\<close>, \<^verbatim>\<open>warn\<close>, \<^verbatim>\<open>error\<close> and
  \<^verbatim>\<open>debug\<close> depends on where that library defines them: on the logger object itself, or
  on its prototype, in which case the copy lacks them. The library is not part of the
  repository, so this is a parameter, \<open>lg\<close>, of every function that logs: when it is
  false, a call of a level method raises a \<^verbatim>\<open>TypeError\<close>. The methods the file adds call
  the logger itself and work in both cases.
\<close>

datatype cause =
  NotAFunction string
| ReadOfUndefined string
| StoreError string

definition log_call :: "bool \<Rightarrow> string \<Rightarrow> cause option" where
  "log_call lg method = (if lg then None else Some (NotAFunction method))"

subsection \<open>Regional lookup\<close>

definition determineRegion :: "real \<Rightarrow> real \<Rightarrow> string" where
  "determineRegion lat lng =
     (if lat > 28 then ''north''
      else if lat < 15 then ''south''
      else if lng < 77 then ''west''
      else if lng > 85 then ''east''
      else ''central'')"

subsection \<open>Water potential and water demand\<close>

record water_potential =
  wp_annual_liters :: jsnum
  daily_average :: jsnum
  monthly_average :: jsnum
  runoff_coefficient :: jsnum
  collection_efficiency :: jsnum

definition calculateWaterPotential :: "jsnum \<Rightarrow> jsnum \<Rightarrow> string \<Rightarrow> water_potential" where
  "calculateWaterPotential roofArea annualRainfall roofType =
     (let coefficient = lookup_or runoffCoefficients roofType (dbl 0.85);
          annualLiters = js_times (js_times roofArea annualRainfall) coefficient;
          dailyAverage = js_divide annualLiters (Num 365);
          monthlyAverage = js_divide annualLiters (Num 12)
      in \<lparr>wp_annual_liters = js_round annualLiters,
          daily_average = js_round dailyAverage,
          monthly_average = js_round monthlyAverage,
          runoff_coefficient = coefficient,
          collection_efficiency = Num (dbl 0.95)\<rparr>)"

record water_demand =
  daily_liters :: jsnum
  monthly_liters :: jsnum
  wd_annual_liters :: jsnum
  per_capita_daily :: jsnum
  occupancy :: jsnum

definition calculateWaterDemand :: "string \<Rightarrow> jsnum \<Rightarrow> water_demand" where
  "calculateWaterDemand buildingType occ =
     (let coeffs = (case lookup_building buildingType of
                      Some c \<Rightarrow> c
                    | None \<Rightarrow> \<lparr>users = Num 4, daily_usage = Num 150\<rparr>);
          dailyDemand = js_times occ (daily_usage coeffs);
          monthlyDemand = js_times dailyDemand (Num 30);
          annualDemand = js_times dailyDemand (Num 365)
      in \<lparr>daily_liters = dailyDemand,
          monthly_liters = monthlyDemand,
          wd_annual_liters = annualDemand,
          per_capita_daily = daily_usage coeffs,
          occupancy = occ\<rparr>)"

subsection \<open>Structure recommendations\<close>

text \<open>
  The capacity of a structure is a string built from a number and a unit; the datatype
  keeps the number and names the unit.
\<close>

datatype capacity =
  Liters jsnum
| LitersPerDay jsnum
| CubicMetres real

datatype spec_value = SpecText string | SpecNumber real

record recommended_structure =
  st_id :: string
  st_name :: string
  st_type :: string
  st_capacity :: capacity
  estimated_cost :: jsnum
  priority :: nat
  description :: string
  specifications :: "(string \<times> spec_value) list"

definition primary_storage :: "jsnum \<Rightarrow> recommended_structure" where
  "primary_storage tankCapacity =
     \<lparr>st_id = ''primary_storage'',
      st_name = ''Primary Storage Tank'',
      st_type = ''storage'',
      st_capacity = Liters (js_round tankCapacity),
      estimated_cost = js_round (js_plus (js_times tankCapacity (Num 15)) (Num 5000)),
      priority = 1,
      description = ''Main water storage tank for collected rainwater'',
      specifications = [(''material'', SpecText ''RCC/Plastic''),
                        (''maintenance'', SpecText ''Quarterly cleaning required'')]\<rparr>"

definition first_flush :: recommended_structure where
  "first_flush =
     \<lparr>st_id = ''first_flush'',
      st_name = ''First Flush Diverter'',
      st_type = ''filter'',
      st_capacity = Liters (Num 50),
      estimated_cost = Num 2500,
      priority = 2,
      description = ''Diverts initial rainfall to remove roof contaminants'',
      specifications = [(''type'', SpecText ''Manual/Automatic''),
                        (''maintenance'', SpecText ''Monthly inspection'')]\<rparr>"

definition filtration :: "water_demand \<Rightarrow> string \<Rightarrow> recommended_structure" where
  "filtration waterDemand budgetRange =
     \<lparr>st_id = ''filtration'',
      st_name = ''Multi-stage Filtration'',
      st_type = ''treatment'',
      st_capacity = LitersPerDay (js_round (daily_liters waterDemand)),
      estimated_cost = Num (if budgetRange = ''high'' then 8000 else 4000),
      priority = 3,
      description = ''Sand, gravel, and carbon filtration system'',
      specifications = [(''stages'', SpecNumber (if budgetRange = ''high'' then 4 else 2)),
                        (''maintenance'', SpecText ''Filter replacement every 6 months'')]\<rparr>"

definition recharge_pit :: recommended_structure where
  "recharge_pit =
     \<lparr>st_id = ''recharge_pit'',
      st_name = ''Groundwater Recharge Pit'',
      st_type = ''recharge'',
      st_capacity = CubicMetres 2,
      estimated_cost = Num 5000,
      priority = 4,
      description = ''Channels excess water to groundwater'',
      specifications = [(''depth'', SpecText ''3m''),
                        (''maintenance'', SpecText ''Annual cleaning'')]\<rparr>"

definition generateStructureRecommendations ::
  "water_potential \<Rightarrow> water_demand \<Rightarrow> string \<Rightarrow> string \<Rightarrow> recommended_structure list" where
  "generateStructureRecommendations waterPotential waterDemand buildingType budgetRange =
     (let storageRatio = lookup_or storageRecommendations buildingType (dbl 0.15);
          recommendedStorage = js_times (wp_annual_liters waterPotential) storageRatio
      in (if js_gt recommendedStorage (Num 500)
          then [primary_storage (js_min (Num 5000) recommendedStorage)] else [])
         @ [first_flush, filtration waterDemand budgetRange]
         @ (if js_gt (wp_annual_liters waterPotential)
                 (js_times (wd_annual_liters waterDemand) (Num 1.5))
            then [recharge_pit] else []))"

subsection \<open>Economics\<close>

datatype financing_option =
  SelfFunded bool
| MonthlyInstallments bool string
| GovernmentSubsidy bool string
| BankLoan bool string

text \<open>
  The constructors stand for the objects with \<^verbatim>\<open>type\<close> \<^verbatim>\<open>self_funded\<close>,
  \<^verbatim>\<open>monthly_installments\<close>, \<^verbatim>\<open>government_subsidy\<close> and \<^verbatim>\<open>bank_loan\<close>; the
  boolean is the field \<^verbatim>\<open>feasible\<close>, the string the duration, the coverage and the
  interest rate.
\<close>

fun option_type :: "financing_option \<Rightarrow> string" where
  "option_type (SelfFunded f) = ''self_funded''"
| "option_type (MonthlyInstallments f d) = ''monthly_installments''"
| "option_type (GovernmentSubsidy f c) = ''government_subsidy''"
| "option_type (BankLoan f r) = ''bank_loan''"

definition getFinancingOptions :: "jsnum \<Rightarrow> jsnum \<Rightarrow> financing_option list" where
  "getFinancingOptions totalCost monthlyIncome =
     (if js_lt totalCost (Num 20000) then [SelfFunded True] else [])
     @ (if truthy monthlyIncome \<and> js_gt monthlyIncome (js_divide totalCost (Num 24))
        then [MonthlyInstallments True ''24 months''] else [])
     @ [GovernmentSubsidy True ''30-50%'']
     @ [BankLoan (js_gt totalCost (Num 50000)) ''8-12%'']"

record economics =
  total_installation_cost :: jsnum
  annual_water_savings :: jsnum
  annual_maintenance_cost :: jsnum
  net_annual_savings :: jsnum
  payback_period_years :: jsnum
  roi_percentage :: jsnum
  water_cost_per_liter :: jsnum
  affordability_score :: jsnum
  financing_options :: "financing_option list"

text \<open>The local quantities of \<^verbatim>\<open>_calculateEconomics\<close> that the result is built from.\<close>

definition waterCostPerL :: "real \<Rightarrow> real \<Rightarrow> jsnum" where
  "waterCostPerL lat lng = js_divide (lookup_or waterCosts (determineRegion lat lng) 28) (Num 1000)"

definition totalInstallationCost :: "recommended_structure list \<Rightarrow> jsnum" where
  "totalInstallationCost structures =
     foldl (\<lambda>sum struct. js_plus sum (estimated_cost struct)) (Num 0) structures"

definition annualWaterSavings :: "water_potential \<Rightarrow> real \<Rightarrow> real \<Rightarrow> jsnum" where
  "annualWaterSavings waterPotential lat lng =
     js_times (wp_annual_liters waterPotential) (waterCostPerL lat lng)"

definition annualMaintenanceCost :: "recommended_structure list \<Rightarrow> jsnum" where
  "annualMaintenanceCost structures = js_times (totalInstallationCost structures) (Num (dbl 0.05))"

definition netAnnualSavings ::
  "recommended_structure list \<Rightarrow> water_potential \<Rightarrow> real \<Rightarrow> real \<Rightarrow> jsnum" where
  "netAnnualSavings structures waterPotential lat lng =
     js_minus (annualWaterSavings waterPotential lat lng) (annualMaintenanceCost structures)"

definition paybackPeriod ::
  "recommended_structure list \<Rightarrow> water_potential \<Rightarrow> real \<Rightarrow> real \<Rightarrow> jsnum" where
  "paybackPeriod structures waterPotential lat lng =
     js_divide (totalInstallationCost structures) (netAnnualSavings structures waterPotential lat lng)"

definition roi :: "recommended_structure list \<Rightarrow> water_potential \<Rightarrow> real \<Rightarrow> real \<Rightarrow> jsnum" where
  "roi structures waterPotential lat lng =
     js_times (js_divide (netAnnualSavings structures waterPotential lat lng)
                 (totalInstallationCost structures)) (Num 100)"

definition affordabilityScore :: "recommended_structure list \<Rightarrow> jsnum \<Rightarrow> jsnum" where
  "affordabilityScore structures monthlyIncome =
     (if truthy monthlyIncome
      then js_min (Num 100)
             (js_times (js_divide (js_times monthlyIncome (Num 12)) (totalInstallationCost structures))
                (Num 50))
      else Num 70)"

definition calculateEconomics ::
  "recommended_structure list \<Rightarrow> water_potential \<Rightarrow> real \<Rightarrow> real \<Rightarrow> jsnum \<Rightarrow> economics" where
  "calculateEconomics structures waterPotential lat lng monthlyIncome =
     \<lparr>total_installation_cost = js_round (totalInstallationCost structures),
      annual_water_savings = js_round (annualWaterSavings waterPotential lat lng),
      annual_maintenance_cost = js_round (annualMaintenanceCost structures),
      net_annual_savings = js_round (netAnnualSavings structures waterPotential lat lng),
      payback_period_years =
        js_divide (js_round (js_times (paybackPeriod structures waterPotential lat lng) (Num 10)))
          (Num 10),
      roi_percentage =
        js_divide (js_round (js_times (roi structures waterPotential lat lng) (Num 10))) (Num 10),
      water_cost_per_liter = waterCostPerL lat lng,
      affordability_score = js_round (affordabilityScore structures monthlyIncome),
      financing_options = getFinancingOptions (totalInstallationCost structures) monthlyIncome\<rparr>"

subsection \<open>Environmental impact\<close>

record environmental =
  annual_water_saved :: jsnum
  co2_reduction_kg :: jsnum
  energy_saved_kwh :: jsnum
  groundwater_conservation :: jsnum
  environmental_score :: jsnum

definition calculateEnvironmentalImpact :: "jsnum \<Rightarrow> string \<Rightarrow> environmental" where
  "calculateEnvironmentalImpact annualWaterSaved buildingType =
     (let co2Reduction = js_times (js_divide annualWaterSaved (Num 1000)) (Num 0.5);
          energySaved = js_times (js_divide annualWaterSaved (Num 1000)) (Num 2);
          groundwaterSaved = annualWaterSaved
      in \<lparr>annual_water_saved = js_round annualWaterSaved,
          co2_reduction_kg = js_divide (js_round (js_times co2Reduction (Num 10))) (Num 10),
          energy_saved_kwh = js_round energySaved,
          groundwater_conservation = js_round groundwaterSaved,
          environmental_score =
            js_min (Num 100) (js_times (js_divide annualWaterSaved (Num 10000)) (Num 100))\<rparr>)"

subsection \<open>The collaborators of the machine-learning service\<close>

text \<open>
  A call through the HTTP client either rejects with an error (the service is down, the
  transport fails, the status is an error status, a configured timeout expires) or
  resolves with the body of the response, which the service takes as it comes. The body
  is an object; a field that the service reads as a number is a number, \<^verbatim>\<open>null\<close> or
  absent, and an object it reads a field of is there or absent (\<open>None\<close>).
\<close>

datatype 'a reply = Rejects string | Resolves 'a

record annual_prediction =
  total_rainfall :: jsnum
  deviation_percent :: jsnum

record monsoon_analysis =
  intensity :: string
  peak_month :: string

record rainfall_data =
  rf_status :: "string option"
  rf_annual_prediction :: "annual_prediction option"
  rf_monsoon_analysis :: "monsoon_analysis option"

definition getRainfallData ::
  "bool \<Rightarrow> rainfall_data reply \<Rightarrow> real \<Rightarrow> real \<Rightarrow> cause + rainfall_data" where
  "getRainfallData lg response lat lng =
     (case response of
        Resolves data \<Rightarrow> Inr data
      | Rejects msg \<Rightarrow>
          (case log_call lg ''logger.warn'' of
             Some c \<Rightarrow> Inl c
           | None \<Rightarrow>
               (let region = determineRegion lat lng
                in Inr \<lparr>rf_status = Some ''estimated'',
                        rf_annual_prediction =
                          Some \<lparr>total_rainfall = lookup_or regionalRainfall region 850,
                                deviation_percent = Num 0\<rparr>,
                        rf_monsoon_analysis =
                          Some \<lparr>intensity = ''Normal'', peak_month = ''2024-07''\<rparr>\<rparr>)))"

record roof_data =
  rd_status :: "string option"
  area_sqm :: jsnum
  confidence :: jsnum

definition roofFallback :: "string option \<Rightarrow> roof_data" where
  "roofFallback bt =
     \<lparr>rd_status = Some ''estimated'',
      area_sqm = lookup_or roofEstimations (case bt of None \<Rightarrow> ''undefined'' | Some t \<Rightarrow> t) 100,
      confidence = Num (dbl 0.6)\<rparr>"

text \<open>The detector is only called when the request has an image; \<open>response\<close> is what
  that call gives.\<close>

definition detectRoofArea ::
  "bool \<Rightarrow> roof_data reply \<Rightarrow> string option \<Rightarrow> string option \<Rightarrow> cause + roof_data" where
  "detectRoofArea lg response imageRef bt =
     (if truthy_str imageRef
      then (case response of
              Resolves data \<Rightarrow> Inr data
            | Rejects msg \<Rightarrow>
                (case log_call lg ''logger.warn'' of
                   Some c \<Rightarrow> Inl c
                 | None \<Rightarrow> Inr (roofFallback bt)))
      else Inr (roofFallback bt))"

record technical_analysis =
  technical_score :: jsnum
  ta_runoff_coefficient :: jsnum

record feasibility_data =
  fs_status :: "string option"
  feasibility_score :: jsnum
  water_potential_annual :: jsnum
  cost_estimate :: jsnum
  payback_period_months :: jsnum
  fs_technical_analysis :: "technical_analysis option"

definition getFeasibilityAnalysis ::
  "bool \<Rightarrow> feasibility_data reply \<Rightarrow> jsnum \<Rightarrow> jsnum \<Rightarrow> cause + feasibility_data" where
  "getFeasibilityAnalysis lg response area rain =
     (case response of
        Resolves data \<Rightarrow> Inr data
      | Rejects msg \<Rightarrow>
          (case log_call lg ''logger.warn'' of
             Some c \<Rightarrow> Inl c
           | None \<Rightarrow>
               (let waterSaving = js_times (js_times area rain) (Num (dbl 0.85));
                    basicCost = js_times area (Num 200)
                in Inr \<lparr>fs_status = Some ''estimated'',
                        feasibility_score = Num 75,
                        water_potential_annual = waterSaving,
                        cost_estimate = basicCost,
                        payback_period_months = Num 24,
                        fs_technical_analysis =
                          Some \<lparr>technical_score = Num 80,
                                ta_runoff_coefficient = Num (dbl 0.85)\<rparr>\<rparr>)))"

subsection \<open>The steps of an assessment, the recommendations and the overall score\<close>

record steps =
  rainfall :: rainfall_data
  roofDetection :: "roof_data option"
  waterPotential :: water_potential
  waterDemand :: water_demand
  feasibility :: feasibility_data
  structures :: "recommended_structure list"
  economics_step :: economics
  environmental_step :: environmental

record implementation_phase =
  phase :: nat
  title :: string
  duration :: string
  ph_structures :: "recommended_structure list"
  cost :: jsnum

record priority_action =
  action :: string
  reason :: string
  urgency :: string

record recommendations =
  implementation_phases :: "implementation_phase list"
  priority_actions :: "priority_action list"
  optimization_tips :: "string list"
  maintenance_schedule :: "(string \<times> string) list"

definition generateRecommendations :: "steps \<Rightarrow> recommendations" where
  "generateRecommendations s =
     \<lparr>implementation_phases =
        (if length (structures s) > 0
         then [\<lparr>phase = 1, title = ''Basic Collection System'', duration = ''2-4 weeks'',
                 ph_structures = filter (\<lambda>x. priority x \<le> 2) (structures s),
                 cost = totalInstallationCost (filter (\<lambda>x. priority x \<le> 2) (structures s))\<rparr>,
               \<lparr>phase = 2, title = ''Advanced Treatment & Storage'', duration = ''2-3 weeks'',
                 ph_structures = filter (\<lambda>x. priority x > 2) (structures s),
                 cost = totalInstallationCost (filter (\<lambda>x. priority x > 2) (structures s))\<rparr>]
         else []),
      priority_actions =
        (if js_lt (payback_period_years (economics_step s)) (Num 3)
         then [\<lparr>action = ''Immediate Implementation'',
                 reason = ''Excellent ROI with payback period under 3 years'',
                 urgency = ''high''\<rparr>]
         else [])
        @ (if js_gt (wp_annual_liters (waterPotential s)) (wd_annual_liters (waterDemand s))
           then [\<lparr>action = ''Add Groundwater Recharge'',
                   reason = ''Excess water potential can benefit groundwater'',
                   urgency = ''medium''\<rparr>]
           else []),
      optimization_tips =
        [''Install gutters with proper slope for maximum collection efficiency'',
         ''Use smooth roof surfaces to increase runoff coefficient'',
         ''Regular cleaning of roof and gutters before monsoon season'',
         ''Consider rainwater quality testing for potable use'',
         ''Install overflow management system for heavy rainfall events''],
      maintenance_schedule =
        [(''Weekly'', ''Visual inspection of gutters and downpipes''),
         (''Monthly'', ''Clean first flush diverter and check filters''),
         (''Quarterly'', ''Deep clean storage tank and inspect structure''),
         (''Annually'', ''Complete system audit and component replacement'')]\<rparr>"

definition getGrade :: "jsnum \<Rightarrow> string" where
  "getGrade score =
     (if js_ge score (Num 90) then ''A+''
      else if js_ge score (Num 80) then ''A''
      else if js_ge score (Num 70) then ''B+''
      else if js_ge score (Num 60) then ''B''
      else if js_ge score (Num 50) then ''C+''
      else ''C'')"

definition getRecommendationLevel :: "jsnum \<Rightarrow> string" where
  "getRecommendationLevel score =
     (if js_ge score (Num 80) then ''Highly Recommended''
      else if js_ge score (Num 60) then ''Recommended''
      else if js_ge score (Num 40) then ''Consider with Modifications''
      else ''Not Recommended'')"

record weights =
  w_feasibility :: jsnum
  w_economics :: jsnum
  w_environmental :: jsnum
  w_technical :: jsnum
  w_social :: jsnum

definition score_weights :: weights where
  "score_weights =
     \<lparr>w_feasibility = Num (dbl 0.3), w_economics = Num 0.25, w_environmental = Num (dbl 0.2),
      w_technical = Num (dbl 0.15), w_social = Num (dbl 0.1)\<rparr>"

record breakdown =
  bd_feasibility :: jsnum
  bd_economics :: jsnum
  bd_environmental :: jsnum
  bd_technical :: jsnum
  bd_social :: jsnum

record overall_score =
  overall :: jsnum
  score_breakdown :: breakdown
  grade :: string
  recommendation :: string

text \<open>The five sub-scores as \<^verbatim>\<open>_calculateOverallScore\<close> reads them.\<close>

definition feasibilityScore :: "steps \<Rightarrow> jsnum" where
  "feasibilityScore s = js_or (feasibility_score (feasibility s)) (Num 75)"

definition economicsScore :: "steps \<Rightarrow> jsnum" where
  "economicsScore s = js_min (Num 100) (js_times (roi_percentage (economics_step s)) (Num 5))"

definition environmentalScore :: "steps \<Rightarrow> jsnum" where
  "environmentalScore s = environmental_score (environmental_step s)"

definition technicalScore :: "steps \<Rightarrow> jsnum" where
  "technicalScore s =
     js_or (case fs_technical_analysis (feasibility s) of
              None \<Rightarrow> Undefined
            | Some ta \<Rightarrow> technical_score ta) (Num 75)"

definition socialScore :: "steps \<Rightarrow> jsnum" where
  "socialScore s = (if js_gt (wp_annual_liters (waterPotential s)) (Num 10000) then Num 85 else Num 65)"

text \<open>The weighted sum of five sub-scores, added from left to right.\<close>

definition weighted_sum :: "jsnum \<Rightarrow> jsnum \<Rightarrow> jsnum \<Rightarrow> jsnum \<Rightarrow> jsnum \<Rightarrow> jsnum" where
  "weighted_sum f ec en t so =
     js_plus (js_plus (js_plus (js_plus
       (js_times f (w_feasibility score_weights))
       (js_times ec (w_economics score_weights)))
       (js_times en (w_environmental score_weights)))
       (js_times t (w_technical score_weights)))
       (js_times so (w_social score_weights))"

text \<open>The local \<^verbatim>\<open>overallScore\<close>: the weighted sum before \<^verbatim>\<open>Math.round\<close>.\<close>

definition overallScore :: "steps \<Rightarrow> jsnum" where
  "overallScore s =
     weighted_sum (feasibilityScore s) (economicsScore s) (environmentalScore s)
       (technicalScore s) (socialScore s)"

definition calculateOverallScore :: "steps \<Rightarrow> overall_score" where
  "calculateOverallScore s =
     \<lparr>overall = js_round (overallScore s),
      score_breakdown =
        \<lparr>bd_feasibility = js_round (feasibilityScore s),
         bd_economics = js_round (economicsScore s),
         bd_environmental = js_round (environmentalScore s),
         bd_technical = js_round (technicalScore s),
         bd_social = js_round (socialScore s)\<rparr>,
      grade = getGrade (overallScore s),
      recommendation = getRecommendationLevel (overallScore s)\<rparr>"

subsection \<open>Requests and results\<close>

text \<open>
  The parameters of a request that passed validation: the coordinates are numbers, the
  other numbers are there or absent (\<open>None\<close>), the rest are strings or absent.
\<close>

record params =
  latitude :: real
  longitude :: real
  address :: "string option"
  buildingType :: "string option"
  roofArea :: "real option"
  roofType :: "string option"
  floors :: "real option"
  householdSize :: "real option"
  monthlyIncome :: "real option"
  budgetRange :: "string option"
  timeline :: "string option"
  imageUrl :: "string option"

record location =
  loc_latitude :: real
  loc_longitude :: real
  loc_address :: "string option"

record building =
  b_type :: string
  roof_area :: jsnum
  roof_type :: string
  b_floors :: jsnum

record household =
  hh_size :: jsnum
  monthly_income :: jsnum

record preferences =
  budget_range :: string
  pref_timeline :: string

text \<open>
  The result of an assessment. Times are readings of the clock in milliseconds;
  \<open>cached = False\<close> is a result without the field \<^verbatim>\<open>cached\<close>.
\<close>

record assessment =
  a_id :: string
  timestamp :: int
  a_location :: location
  a_building :: building
  a_household :: household
  a_preferences :: preferences
  status :: string
  a_steps :: steps
  a_recommendations :: recommendations
  a_overall_score :: overall_score
  completed_at :: int
  processing_time :: int
  cached :: bool

subsection \<open>What the cache keeps\<close>

text \<open>
  The cache keeps \<^verbatim>\<open>JSON.stringify(assessment)\<close> and gives back \<^verbatim>\<open>JSON.parse\<close> of it:
  every field that holds a number goes through \<open>json_num\<close>, strings and booleans stay.
\<close>

definition json_water_potential :: "water_potential \<Rightarrow> water_potential" where
  "json_water_potential x =
     \<lparr>wp_annual_liters = json_num (wp_annual_liters x),
      daily_average = json_num (daily_average x),
      monthly_average = json_num (monthly_average x),
      runoff_coefficient = json_num (runoff_coefficient x),
      collection_efficiency = json_num (collection_efficiency x)\<rparr>"

definition json_water_demand :: "water_demand \<Rightarrow> water_demand" where
  "json_water_demand x =
     \<lparr>daily_liters = json_num (daily_liters x),
      monthly_liters = json_num (monthly_liters x),
      wd_annual_liters = json_num (wd_annual_liters x),
      per_capita_daily = json_num (per_capita_daily x),
      occupancy = json_num (occupancy x)\<rparr>"

definition json_structure :: "recommended_structure \<Rightarrow> recommended_structure" where
  "json_structure x = x\<lparr>estimated_cost := json_num (estimated_cost x)\<rparr>"

definition json_economics :: "economics \<Rightarrow> economics" where
  "json_economics x =
     \<lparr>total_installation_cost = json_num (total_installation_cost x),
      annual_water_savings = json_num (annual_water_savings x),
      annual_maintenance_cost = json_num (annual_maintenance_cost x),
      net_annual_savings = json_num (net_annual_savings x),
      payback_period_years = json_num (payback_period_years x),
      roi_percentage = json_num (roi_percentage x),
      water_cost_per_liter = json_num (water_cost_per_liter x),
      affordability_score = json_num (affordability_score x),
      financing_options = financing_options x\<rparr>"

definition json_environmental :: "environmental \<Rightarrow> environmental" where
  "json_environmental x =
     \<lparr>annual_water_saved = json_num (annual_water_saved x),
      co2_reduction_kg = json_num (co2_reduction_kg x),
      energy_saved_kwh = json_num (energy_saved_kwh x),
      groundwater_conservation = json_num (groundwater_conservation x),
      environmental_score = json_num (environmental_score x)\<rparr>"

definition json_rainfall :: "rainfall_data \<Rightarrow> rainfall_data" where
  "json_rainfall x =
     x\<lparr>rf_annual_prediction :=
         map_option (\<lambda>ap. \<lparr>total_rainfall = json_num (total_rainfall ap),
                           deviation_percent = json_num (deviation_percent ap)\<rparr>)
           (rf_annual_prediction x)\<rparr>"

definition json_roof :: "roof_data \<Rightarrow> roof_data" where
  "json_roof x = x\<lparr>area_sqm := json_num (area_sqm x), confidence := json_num (confidence x)\<rparr>"

definition json_feasibility :: "feasibility_data \<Rightarrow> feasibility_data" where
  "json_feasibility x =
     \<lparr>fs_status = fs_status x,
      feasibility_score = json_num (feasibility_score x),
      water_potential_annual = json_num (water_potential_annual x),
      cost_estimate = json_num (cost_estimate x),
      payback_period_months = json_num (payback_period_months x),
      fs_technical_analysis =
        map_option (\<lambda>ta. \<lparr>technical_score = json_num (technical_score ta),
                           ta_runoff_coefficient = json_num (ta_runoff_coefficient ta)\<rparr>)
          (fs_technical_analysis x)\<rparr>"

definition json_steps :: "steps \<Rightarrow> steps" where
  "json_steps x =
     \<lparr>rainfall = json_rainfall (rainfall x),
      roofDetection = map_option json_roof (roofDetection x),
      waterPotential = json_water_potential (waterPotential x),
      waterDemand = json_water_demand (waterDemand x),
      feasibility = json_feasibility (feasibility x),
      structures = map json_structure (structures x),
      economics_step = json_economics (economics_step x),
      environmental_step = json_environmental (environmental_step x)\<rparr>"

definition json_recommendations :: "recommendations \<Rightarrow> recommendations" where
  "json_recommendations x =
     x\<lparr>implementation_phases :=
         map (\<lambda>ph. ph\<lparr>ph_structures := map json_structure (ph_structures ph),
                       cost := json_num (cost ph)\<rparr>)
           (implementation_phases x)\<rparr>"

definition json_overall_score :: "overall_score \<Rightarrow> overall_score" where
  "json_overall_score x =
     x\<lparr>overall := json_num (overall x),
       score_breakdown :=
         \<lparr>bd_feasibility = json_num (bd_feasibility (score_breakdown x)),
          bd_economics = json_num (bd_economics (score_breakdown x)),
          bd_environmental = json_num (bd_environmental (score_breakdown x)),
          bd_technical = json_num (bd_technical (score_breakdown x)),
          bd_social = json_num (bd_social (score_breakdown x))\<rparr>\<rparr>"

definition json_assessment :: "assessment \<Rightarrow> assessment" where
  "json_assessment a =
     a\<lparr>a_building :=
         (a_building a)\<lparr>roof_area := json_num (roof_area (a_building a)),
                         b_floors := json_num (b_floors (a_building a))\<rparr>,
       a_household :=
         \<lparr>hh_size = json_num (hh_size (a_household a)),
          monthly_income = json_num (monthly_income (a_household a))\<rparr>,
       a_steps := json_steps (a_steps a),
       a_recommendations := json_recommendations (a_recommendations a),
       a_overall_score := json_overall_score (a_overall_score a)\<rparr>"

subsection \<open>The cache and the store\<close>

text \<open>
  The cache key is the string
  \<^verbatim>\<open>${latitude}_${longitude}_${buildingType}_${roofArea || 'auto'}\<close>. The model keeps its
  four parts: the two numbers, the building type as it prints (\<^verbatim>\<open>undefined\<close> when the
  request has none) and the roof area, \<open>None\<close> for \<^verbatim>\<open>auto\<close>.
\<close>

datatype cache_key = CacheKey real real string "real option"

definition generateCacheKey :: "params \<Rightarrow> cache_key" where
  "generateCacheKey p =
     CacheKey (latitude p) (longitude p)
       (case buildingType p of None \<Rightarrow> ''undefined'' | Some t \<Rightarrow> t)
       (if truthy (of_opt (roofArea p)) then roofArea p else None)"

text \<open>
  What a call does to the outside: the requests it sends to the collaborators and the
  insert it attempts on the store, in order.
\<close>

datatype effect = RainfallPredict | RoofDetect | FeasibilityCalculate | StoreInsert

text \<open>
  The state outside the service: the entries of the cache, each with the instant at which
  it expires, the rows of the store, and the effects so far.
\<close>

record world =
  cache :: "cache_key \<Rightarrow> (assessment \<times> int) option"
  store :: "assessment list"
  effects :: "effect list"

text \<open>
  What one call meets: the identifier it draws, the clock when it starts and when the
  computation is complete, whether the exported logger has its level methods, whether
  the cache is connected and answers the read and the write, what the collaborators
  reply, and the error of the store's insert, if any.
\<close>

record env =
  fresh_id :: string
  t_start :: int
  t_end :: int
  log_ok :: bool
  cache_get_ok :: bool
  cache_set_ok :: bool
  rainfall_reply :: "rainfall_data reply"
  roof_reply :: "roof_data reply"
  feasibility_reply :: "feasibility_data reply"
  store_error :: "string option"

text \<open>
  \<^verbatim>\<open>getCache\<close> logs on each of its paths; when the level method it calls is missing, the
  error is caught by its own \<^verbatim>\<open>catch\<close>, which calls \<^verbatim>\<open>logger.error\<close> and so raises.
  \<open>answers\<close> is false when the cache is not connected or the client raises.
\<close>

definition getCache ::
  "bool \<Rightarrow> bool \<Rightarrow> world \<Rightarrow> int \<Rightarrow> cache_key \<Rightarrow> cause + assessment option" where
  "getCache lg answers w now key =
     (case log_call lg ''logger.error'' of
        Some c \<Rightarrow> Inl c
      | None \<Rightarrow>
          Inr (if \<not> answers then None
               else case cache w key of
                      None \<Rightarrow> None
                    | Some (v, expiry) \<Rightarrow> if now < expiry then Some v else None))"

definition setCache ::
  "bool \<Rightarrow> bool \<Rightarrow> world \<Rightarrow> int \<Rightarrow> cache_key \<Rightarrow> assessment \<Rightarrow> int \<Rightarrow> (cause + bool) \<times> world" where
  "setCache lg answers w now key v ttl =
     (let w' = (if answers
                then w\<lparr>cache := (cache w)(key := Some (json_assessment v, now + ttl * 1000))\<rparr>
                else w)
      in case log_call lg ''logger.error'' of
           Some c \<Rightarrow> (Inl c, w')
         | None \<Rightarrow> (Inr answers, w'))"

text \<open>
  \<^verbatim>\<open>saveAssessment\<close>: the insert succeeds, or it raises and the error is logged with
  \<^verbatim>\<open>logger.error\<close> and raised again.
\<close>

definition saveAssessment :: "bool \<Rightarrow> string option \<Rightarrow> cause option" where
  "saveAssessment lg insert_error =
     (case insert_error of
        None \<Rightarrow> None
      | Some msg \<Rightarrow>
          (case log_call lg ''logger.error'' of
             Some c \<Rightarrow> Some c
           | None \<Rightarrow> Some (StoreError msg)))"

definition emit :: "effect \<Rightarrow> world \<Rightarrow> world" where
  "emit x w = w\<lparr>effects := effects w @ [x]\<rparr>"

subsection \<open>The orchestrator\<close>

text \<open>
  How a call ends when it does not return: with \<^verbatim>\<open>Assessment failed: ...\<close>, made by the
  \<^verbatim>\<open>catch\<close> block from what was raised, or with the error that the \<^verbatim>\<open>catch\<close> block itself
  raises when it calls \<^verbatim>\<open>logger.error\<close>.
\<close>

datatype error = AssessmentFailed cause | Uncaught cause

definition householdOf :: "params \<Rightarrow> cause + household" where
  "householdOf p =
     (if truthy (of_opt (householdSize p))
      then Inr \<lparr>hh_size = of_opt (householdSize p),
                monthly_income = js_or (of_opt (monthlyIncome p)) Null\<rparr>
      else case lookup_building (or_str (buildingType p) ''residential'') of
             None \<Rightarrow> Inl (ReadOfUndefined ''users'')
           | Some c \<Rightarrow> Inr \<lparr>hh_size = users c,
                              monthly_income = js_or (of_opt (monthlyIncome p)) Null\<rparr>)"

text \<open>Steps 3, 4 and 6 to 8, which call nothing outside; \<open>fs\<close> is the result of step 5.\<close>

definition assembleSteps ::
  "params \<Rightarrow> household \<Rightarrow> rainfall_data \<Rightarrow> roof_data option \<Rightarrow> jsnum \<Rightarrow> jsnum \<Rightarrow> feasibility_data
     \<Rightarrow> steps" where
  "assembleSteps p hh rf rd area rain fs =
     (let bt = or_str (buildingType p) ''residential'';
          rt = or_str (roofType p) ''concrete'';
          wp = calculateWaterPotential area rain rt;
          wd = calculateWaterDemand bt (hh_size hh);
          sts = generateStructureRecommendations wp wd bt (or_str (budgetRange p) ''medium'');
          ec = calculateEconomics sts wp (latitude p) (longitude p) (monthly_income hh);
          en = calculateEnvironmentalImpact (wp_annual_liters wp) bt
      in \<lparr>rainfall = rf, roofDetection = rd, waterPotential = wp, waterDemand = wd,
          feasibility = fs, structures = sts, economics_step = ec, environmental_step = en\<rparr>)"

definition seconds_between :: "int \<Rightarrow> int \<Rightarrow> int" where
  "seconds_between t1 t2 =
     (if t2 \<ge> t1 then (t2 - t1) div 1000 else - ((t1 - t2) div 1000))"

definition completed :: "env \<Rightarrow> params \<Rightarrow> household \<Rightarrow> jsnum \<Rightarrow> steps \<Rightarrow> assessment" where
  "completed e p hh area s =
     \<lparr>a_id = fresh_id e,
      timestamp = t_start e,
      a_location = \<lparr>loc_latitude = latitude p, loc_longitude = longitude p,
                    loc_address = or_null_str (address p)\<rparr>,
      a_building = \<lparr>b_type = or_str (buildingType p) ''residential'',
                    roof_area = area,
                    roof_type = or_str (roofType p) ''concrete'',
                    b_floors = js_or (of_opt (floors p)) (Num 1)\<rparr>,
      a_household = hh,
      a_preferences = \<lparr>budget_range = or_str (budgetRange p) ''medium'',
                       pref_timeline = or_str (timeline p) ''3-6 months''\<rparr>,
      status = ''completed'',
      a_steps = s,
      a_recommendations = generateRecommendations s,
      a_overall_score = calculateOverallScore s,
      completed_at = t_end e,
      processing_time = seconds_between (t_start e) (t_end e),
      cached = False\<rparr>"

text \<open>
  Step 2: the roof area is detected only when the request has none, and the detector is
  only called when the request has an image.
\<close>

definition resolveRoof :: "env \<Rightarrow> params \<Rightarrow> cause + roof_data option" where
  "resolveRoof e p =
     (if \<not> truthy (of_opt (roofArea p))
      then map_sum id Some (detectRoofArea (log_ok e) (roof_reply e) (imageUrl p) (buildingType p))
      else Inr None)"

definition roofEffects :: "params \<Rightarrow> world \<Rightarrow> world" where
  "roofEffects p w =
     (if \<not> truthy (of_opt (roofArea p)) \<and> truthy_str (imageUrl p) then emit RoofDetect w else w)"

definition resolvedArea :: "params \<Rightarrow> roof_data option \<Rightarrow> jsnum" where
  "resolvedArea p rd = (case rd of Some d \<Rightarrow> area_sqm d | None \<Rightarrow> of_opt (roofArea p))"

text \<open>Steps 3 to 10.\<close>

definition afterRoof ::
  "env \<Rightarrow> params \<Rightarrow> household \<Rightarrow> rainfall_data \<Rightarrow> roof_data option \<Rightarrow> world
     \<Rightarrow> (cause + assessment) \<times> world" where
  "afterRoof e p hh rf rd w =
     (case rf_annual_prediction rf of
        None \<Rightarrow> (Inl (ReadOfUndefined ''total_rainfall''), w)
      | Some ap \<Rightarrow>
          (case getFeasibilityAnalysis (log_ok e) (feasibility_reply e)
                  (resolvedArea p rd) (total_rainfall ap) of
             Inl c \<Rightarrow> (Inl c, emit FeasibilityCalculate w)
           | Inr fs \<Rightarrow>
               (Inr (completed e p hh (resolvedArea p rd)
                       (assembleSteps p hh rf rd (resolvedArea p rd) (total_rainfall ap) fs)),
                emit FeasibilityCalculate w)))"

text \<open>
  The body of \<^verbatim>\<open>performAssessment\<close> after a cache miss, up to the point where the
  result is complete and has not been saved yet (lines 69 to 158).
\<close>

definition computeAssessment :: "env \<Rightarrow> params \<Rightarrow> world \<Rightarrow> (cause + assessment) \<times> world" where
  "computeAssessment e p w =
     (case householdOf p of
        Inl c \<Rightarrow> (Inl c, w)
      | Inr hh \<Rightarrow>
          (case getRainfallData (log_ok e) (rainfall_reply e) (latitude p) (longitude p) of
             Inl c \<Rightarrow> (Inl c, emit RainfallPredict w)
           | Inr rf \<Rightarrow>
               (case resolveRoof e p of
                  Inl c \<Rightarrow> (Inl c, roofEffects p (emit RainfallPredict w))
                | Inr rd \<Rightarrow> afterRoof e p hh rf rd (roofEffects p (emit RainfallPredict w)))))"

definition cacheTtl :: int where
  "cacheTtl = 86400"

text \<open>The \<^verbatim>\<open>try\<close> block of \<^verbatim>\<open>performAssessment\<close>.\<close>

definition attempt :: "env \<Rightarrow> params \<Rightarrow> world \<Rightarrow> (cause + assessment) \<times> world" where
  "attempt e p w =
     (case log_call (log_ok e) ''logger.info'' of
        Some c \<Rightarrow> (Inl c, w)
      | None \<Rightarrow>
          (case getCache (log_ok e) (cache_get_ok e) w (t_start e) (generateCacheKey p) of
             Inl c \<Rightarrow> (Inl c, w)
           | Inr (Some cachedResult) \<Rightarrow>
               (Inr (cachedResult\<lparr>a_id := fresh_id e, cached := True\<rparr>), w)
           | Inr None \<Rightarrow>
               (case computeAssessment e p w of
                  (Inl c, w1) \<Rightarrow> (Inl c, w1)
                | (Inr a, w1) \<Rightarrow>
                    (case saveAssessment (log_ok e) (store_error e) of
                       Some c \<Rightarrow> (Inl c, emit StoreInsert w1)
                     | None \<Rightarrow>
                         (case setCache (log_ok e) (cache_set_ok e)
                                 ((emit StoreInsert w1)\<lparr>store := store w1 @ [a]\<rparr>)
                                 (t_end e) (generateCacheKey p) a cacheTtl of
                            (Inl c, w2) \<Rightarrow> (Inl c, w2)
                          | (Inr b, w2) \<Rightarrow> (Inr a, w2))))))"

text \<open>The \<^verbatim>\<open>catch\<close> block logs with \<^verbatim>\<open>logger.error\<close> and raises \<^verbatim>\<open>Assessment failed\<close>.\<close>

definition performAssessment :: "env \<Rightarrow> params \<Rightarrow> world \<Rightarrow> (error + assessment) \<times> world" where
  "performAssessment e p w =
     (case attempt e p w of
        (Inr a, w1) \<Rightarrow> (Inr a, w1)
      | (Inl c, w1) \<Rightarrow>
          (case log_call (log_ok e) ''logger.error'' of
             Some c' \<Rightarrow> (Inl (Uncaught c'), w1)
           | None \<Rightarrow> (Inl (AssessmentFailed c), w1)))"

subsection \<open>The end-to-end scenario\<close>

text \<open>
  The request at latitude 28.7, longitude 77.1 for a residential building with a concrete
  roof of 120 square metres and a household of 4, met with every collaborator down, a
  logger that has its level methods, an empty cache and a store that accepts the insert.
\<close>

definition scenario_latitude :: real where
  "scenario_latitude = dbl 28.7"

definition scenario_longitude :: real where
  "scenario_longitude = dbl 77.1"

definition scenario_params :: params where
  "scenario_params =
     \<lparr>latitude = scenario_latitude, longitude = scenario_longitude, address = None,
      buildingType = Some ''residential'', roofArea = Some 120, roofType = Some ''concrete'',
      floors = None, householdSize = Some 4, monthlyIncome = None,
      budgetRange = None, timeline = None, imageUrl = None\<rparr>"

definition offline :: "string \<Rightarrow> int \<Rightarrow> int \<Rightarrow> env" where
  "offline ident t1 t2 =
     \<lparr>fresh_id = ident, t_start = t1, t_end = t2, log_ok = True,
      cache_get_ok = True, cache_set_ok = True,
      rainfall_reply = Rejects ''connect ECONNREFUSED'',
      roof_reply = Rejects ''connect ECONNREFUSED'',
      feasibility_reply = Rejects ''connect ECONNREFUSED'',
      store_error = None\<rparr>"

definition empty_world :: world where
  "empty_world = \<lparr>cache = (\<lambda>k. None), store = [], effects = []\<rparr>"

text \<open>The steps of the scenario: the rainfall is the regional default 650, the
  feasibility the local fallback.\<close>

definition scenario_feasibility :: feasibility_data where
  "scenario_feasibility =
     \<lparr>fs_status = Some ''estimated'', feasibility_score = Num 75,
      water_potential_annual = js_times (js_times (Num 120) (Num 650)) (Num (dbl 0.85)),
      cost_estimate = js_times (Num 120) (Num 200),
      payback_period_months = Num 24,
      fs_technical_analysis =
        Some \<lparr>technical_score = Num 80, ta_runoff_coefficient = Num (dbl 0.85)\<rparr>\<rparr>"

definition scenario_rainfall :: rainfall_data where
  "scenario_rainfall =
     \<lparr>rf_status = Some ''estimated'',
      rf_annual_prediction = Some \<lparr>total_rainfall = Num 650, deviation_percent = Num 0\<rparr>,
      rf_monsoon_analysis = Some \<lparr>intensity = ''Normal'', peak_month = ''2024-07''\<rparr>\<rparr>"

definition scenario_steps :: steps where
  "scenario_steps =
     assembleSteps scenario_params \<lparr>hh_size = Num 4, monthly_income = Null\<rparr>
       scenario_rainfall None (Num 120) (Num 650) scenario_feasibility"

text \<open>
  Runs of the orchestrator on the scenario: the same request twice, one minute apart;
  a request without a roof area (the estimate for a residential building is 100 square
  metres) followed one minute later by the same request with the roof area 100; and the
  request met by a store whose insert raises.
\<close>

definition first_call :: "(error + assessment) \<times> world" where
  "first_call = performAssessment (offline ''a-1'' 0 2000) scenario_params empty_world"

definition second_call :: "(error + assessment) \<times> world" where
  "second_call = performAssessment (offline ''a-2'' 60000 62000) scenario_params (snd first_call)"

definition auto_call :: "(error + assessment) \<times> world" where
  "auto_call =
     performAssessment (offline ''b-1'' 0 2000) (scenario_params\<lparr>roofArea := None\<rparr>) empty_world"

definition explicit_call :: "(error + assessment) \<times> world" where
  "explicit_call =
     performAssessment (offline ''b-2'' 60000 62000) (scenario_params\<lparr>roofArea := Some 100\<rparr>)
       (snd auto_call)"

definition store_down :: env where
  "store_down = (offline ''c-1'' 0 2000)\<lparr>store_error := Some ''Connection terminated unexpectedly''\<rparr>"


subsection \<open>Example inputs\<close>

text \<open>
  The pure steps on a residential building with a household of four and a concrete roof
  of a given area at latitude 28.7, longitude 77.1, where the regional rainfall is
  650 mm: the water potential, the water demand, the recommended structures for a
  budget tier, and the economics without a monthly income. The two roof areas are those
  at which the annual savings equal the annual maintenance, for the budget tiers medium
  and high.
\<close>

definition break_even_area :: real where
  "break_even_area = 295.7265625"

definition break_even_area_high :: real where
  "break_even_area_high = 309.40234375"

definition example_potential :: "real \<Rightarrow> water_potential" where
  "example_potential area = calculateWaterPotential (Num area) (Num 650) ''concrete''"

definition example_demand :: water_demand where
  "example_demand = calculateWaterDemand ''residential'' (Num 4)"

definition example_structures :: "real \<Rightarrow> string \<Rightarrow> recommended_structure list" where
  "example_structures area budget =
     generateStructureRecommendations (example_potential area) example_demand ''residential'' budget"

definition example_economics :: "real \<Rightarrow> string \<Rightarrow> economics" where
  "example_economics area budget =
     calculateEconomics (example_structures area budget) (example_potential area)
       scenario_latitude scenario_longitude Null"

section \<open>Properties\<close>

subsection \<open>Rounding to the nearest double\<close>

lemma pow2_div: "(2::real) powi a / 2 powi b = 2 powi (a - b)"
  by (simp add: power_int_diff)

lemma pow2_mul: "(2::real) powi a * 2 powi b = 2 powi (a + b)"
  by (simp add: power_int_add)

lemma round_even_of_int [simp]: "round_even (of_int n) = n"
  by (simp add: round_even_def)

lemma round_even_mono: "x \<le> y \<Longrightarrow> round_even x \<le> round_even y"
proof -
  assume xy: "x \<le> y"
  have fl: "\<lfloor>x\<rfloor> \<le> \<lfloor>y\<rfloor>" using xy by (rule floor_mono)
  show ?thesis
  proof (cases "\<lfloor>x\<rfloor> = \<lfloor>y\<rfloor>")
    case True
    then show ?thesis using xy unfolding round_even_def Let_def by auto
  next
    case False
    then have "\<lfloor>x\<rfloor> + 1 \<le> \<lfloor>y\<rfloor>" using fl by simp
    moreover have "round_even x \<le> \<lfloor>x\<rfloor> + 1" unfolding round_even_def Let_def by auto
    moreover have "\<lfloor>y\<rfloor> \<le> round_even y" unfolding round_even_def Let_def by auto
    ultimately show ?thesis by linarith
  qed
qed

lemma expo_from_spec:
  assumes "- 1022 \<le> e" "0 \<le> m"
  shows "- 1022 \<le> expo_from m e \<and> expo_from m e \<le> e
       \<and> (- 1022 < expo_from m e \<longrightarrow> 2 powi (expo_from m e) \<le> m * 2 powi e)
       \<and> (expo_from m e < e \<longrightarrow> m * 2 powi e < 2 powi (expo_from m e + 1))"
  using assms
proof (induction m e rule: expo_from.induct)
  case (1 m e)
  show ?case
  proof (cases "m < 1 \<and> - 1022 < e")
    case True
    then have eq: "expo_from m e = expo_from (2 * m) (e - 1)"
      by (subst expo_from.simps) simp
    have IH: "- 1022 \<le> expo_from (2 * m) (e - 1) \<and> expo_from (2 * m) (e - 1) \<le> e - 1
       \<and> (- 1022 < expo_from (2 * m) (e - 1) \<longrightarrow> 2 powi (expo_from (2 * m) (e - 1)) \<le> 2 * m * 2 powi (e - 1))
       \<and> (expo_from (2 * m) (e - 1) < e - 1 \<longrightarrow> 2 * m * 2 powi (e - 1) < 2 powi (expo_from (2 * m) (e - 1) + 1))"
      using "1.IH" [OF True] True "1.prems" by simp
    have "(2 powi e :: real) = 2 powi 1 * 2 powi (e - 1)"
      unfolding pow2_mul by (rule arg_cong [where f = "\<lambda>k. 2 powi k"]) simp
    then have sh: "2 * m * 2 powi (e - 1) = m * (2 powi e :: real)"
      by simp
    have top: "m * 2 powi e < (2 powi e :: real)"
      using True by simp
    show ?thesis
      unfolding eq using IH top unfolding sh
      by (cases "expo_from (2 * m) (e - 1) = e - 1") auto
  next
    case False
    then have eq: "expo_from m e = e"
      by (subst expo_from.simps) auto
    have "- 1022 < e \<Longrightarrow> (2 powi e :: real) \<le> m * 2 powi e"
      using False by simp
    then show ?thesis unfolding eq using "1.prems" by simp
  qed
qed

lemma expo_range: "- 1022 \<le> expo x" "expo x \<le> 1024"
  using expo_from_spec [of 1024 "\<bar>x\<bar> / 2 ^ 1024"] by (simp_all add: expo_def)

lemma expo_lower: "- 1022 < expo x \<Longrightarrow> 2 powi (expo x) \<le> \<bar>x\<bar>"
  using expo_from_spec [of 1024 "\<bar>x\<bar> / 2 ^ 1024"] by (simp add: expo_def)

lemma expo_upper: "expo x < 1024 \<Longrightarrow> \<bar>x\<bar> < 2 powi (expo x + 1)"
  using expo_from_spec [of 1024 "\<bar>x\<bar> / 2 ^ 1024"] by (simp add: expo_def)

lemma expo_mono: "\<bar>x\<bar> \<le> \<bar>y\<bar> \<Longrightarrow> expo x \<le> expo y"
proof (rule ccontr)
  assume xy: "\<bar>x\<bar> \<le> \<bar>y\<bar>" and "\<not> expo x \<le> expo y"
  then have lt: "expo y < expo x" by simp
  have "- 1022 < expo x" using lt expo_range(1) [of y] by linarith
  then have a: "2 powi (expo x) \<le> \<bar>x\<bar>" by (rule expo_lower)
  have "expo y < 1024" using lt expo_range(2) [of x] by linarith
  then have b: "\<bar>y\<bar> < 2 powi (expo y + 1)" by (rule expo_upper)
  have "(2 powi (expo y + 1) :: real) \<le> 2 powi (expo x)"
    using lt by (intro power_int_increasing) auto
  then show False using a b xy by linarith
qed

lemma expo_eq:
  assumes "2 powi e \<le> \<bar>x\<bar>" "\<bar>x\<bar> < 2 powi (e + 1)" "- 1022 \<le> e" "e \<le> 1023"
  shows "expo x = e"
proof (rule antisym)
  show "expo x \<le> e"
  proof (rule ccontr)
    assume "\<not> expo x \<le> e"
    then have lt: "e + 1 \<le> expo x" by simp
    then have "- 1022 < expo x" using assms(3) by linarith
    then have "2 powi (expo x) \<le> \<bar>x\<bar>" by (rule expo_lower)
    moreover have "(2 powi (e + 1) :: real) \<le> 2 powi (expo x)"
      using lt by (intro power_int_increasing) auto
    ultimately show False using assms(2) by linarith
  qed
  show "e \<le> expo x"
  proof (rule ccontr)
    assume "\<not> e \<le> expo x"
    then have lt: "expo x + 1 \<le> e" by simp
    then have "expo x < 1024" using assms(4) by linarith
    then have "\<bar>x\<bar> < 2 powi (expo x + 1)" by (rule expo_upper)
    moreover have "(2 powi (expo x + 1) :: real) \<le> 2 powi e"
      using lt by (intro power_int_increasing) auto
    ultimately show False using assms(1) by linarith
  qed
qed

lemma dbl_eval:
  assumes "2 powi e \<le> \<bar>x\<bar>" "\<bar>x\<bar> < 2 powi (e + 1)" "- 1022 \<le> e" "e \<le> 1023"
  shows "dbl x = sgn x * (of_int (round_even (\<bar>x\<bar> / 2 powi (e - 52))) * 2 powi (e - 52))"
  unfolding dbl_def expo_eq [OF assms] ..

lemma dbl_minus: "dbl (- x) = - dbl x"
  by (simp add: dbl_def expo_def)

lemma dbl_zero [simp]: "dbl 0 = 0"
  by (simp add: dbl_def)

lemma dbl_nonneg: "0 \<le> x \<Longrightarrow> 0 \<le> dbl x"
proof -
  assume x: "0 \<le> x"
  have "0 \<le> \<bar>x\<bar> / 2 powi (expo x - 52)" by simp
  then have "round_even 0 \<le> round_even (\<bar>x\<bar> / 2 powi (expo x - 52))"
    by (rule round_even_mono)
  then have "0 \<le> round_even (\<bar>x\<bar> / 2 powi (expo x - 52))"
    using round_even_of_int [of 0] by simp
  then show ?thesis using x unfolding dbl_def
    by (cases "x = 0") (simp_all add: sgn_if)
qed

lemma dbl_mono_nonneg:
  assumes "0 \<le> x" "x \<le> y"
  shows "dbl x \<le> dbl y"
proof (cases "x = 0")
  case True
  then show ?thesis using dbl_nonneg [of y] assms by simp
next
  case False
  then have xp: "0 < x" and yp: "0 < y" using assms by auto
  have dx: "dbl x = of_int (round_even (x / 2 powi (expo x - 52))) * 2 powi (expo x - 52)"
    using xp by (simp add: dbl_def)
  have dy: "dbl y = of_int (round_even (y / 2 powi (expo y - 52))) * 2 powi (expo y - 52)"
    using yp by (simp add: dbl_def)
  have le: "expo x \<le> expo y" using assms xp by (intro expo_mono) simp
  show ?thesis
  proof (cases "expo x = expo y")
    case True
    have "x / 2 powi (expo y - 52) \<le> y / 2 powi (expo y - 52)"
      using assms by (simp add: divide_right_mono)
    then have "round_even (x / 2 powi (expo y - 52)) \<le> round_even (y / 2 powi (expo y - 52))"
      by (rule round_even_mono)
    then show ?thesis unfolding dx dy True by (simp add: mult_right_mono)
  next
    case False
    then have lt: "expo x < expo y" using le by simp
    have ux: "x < 2 powi (expo x + 1)"
      using expo_upper [of x] lt expo_range(2) [of y] xp by simp
    have "x / 2 powi (expo x - 52) \<le> 2 powi 53"
    proof -
      have "x / 2 powi (expo x - 52) \<le> 2 powi (expo x + 1) / 2 powi (expo x - 52)"
        using ux by (simp add: divide_right_mono)
      also have "\<dots> = 2 powi ((expo x + 1) - (expo x - 52))"
        by (rule pow2_div)
      also have "\<dots> = 2 powi 53"
        by (rule arg_cong [where f = "\<lambda>k. 2 powi k"]) simp
      finally show ?thesis .
    qed
    then have "round_even (x / 2 powi (expo x - 52)) \<le> round_even (of_int (2 ^ 53))"
      by (intro round_even_mono) simp
    then have "of_int (round_even (x / 2 powi (expo x - 52))) \<le> (2 powi 53 :: real)"
      unfolding round_even_of_int by (simp add: of_int_le_iff [symmetric] del: of_int_le_iff)
    then have "dbl x \<le> 2 powi 53 * 2 powi (expo x - 52)"
      unfolding dx by (simp add: mult_right_mono)
    also have "\<dots> = 2 powi (53 + (expo x - 52))"
      by (rule pow2_mul)
    also have "\<dots> = 2 powi (expo x + 1)"
      by (rule arg_cong [where f = "\<lambda>k. 2 powi k"]) simp
    also have "\<dots> \<le> 2 powi (expo y)"
      using lt by (intro power_int_increasing) auto
    finally have a: "dbl x \<le> 2 powi (expo y)" .
    have ly: "2 powi (expo y) \<le> y"
      using expo_lower [of y] lt expo_range(1) [of x] yp by simp
    have "2 powi 52 \<le> y / 2 powi (expo y - 52)"
    proof -
      have "2 powi (expo y) / 2 powi (expo y - 52) \<le> y / 2 powi (expo y - 52)"
        using ly by (simp add: divide_right_mono)
      moreover have "2 powi (expo y) / 2 powi (expo y - 52) = (2 powi (expo y - (expo y - 52)) :: real)"
        by (rule pow2_div)
      moreover have "(2 powi (expo y - (expo y - 52)) :: real) = 2 powi 52"
        by (rule arg_cong [where f = "\<lambda>k. 2 powi k"]) simp
      ultimately show ?thesis by metis
    qed
    then have "round_even (of_int (2 ^ 52)) \<le> round_even (y / 2 powi (expo y - 52))"
      by (intro round_even_mono) simp
    then have "(2 powi 52 :: real) \<le> of_int (round_even (y / 2 powi (expo y - 52)))"
      unfolding round_even_of_int by (simp add: of_int_le_iff [symmetric] del: of_int_le_iff)
    then have "2 powi 52 * 2 powi (expo y - 52) \<le> dbl y"
      unfolding dy by (simp add: mult_right_mono)
    moreover have "2 powi 52 * 2 powi (expo y - 52) = (2 powi (expo y) :: real)"
      unfolding pow2_mul by (rule arg_cong [where f = "\<lambda>k. 2 powi k"]) simp
    ultimately show ?thesis using a by linarith
  qed
qed

lemma dbl_nonpos: "x \<le> 0 \<Longrightarrow> dbl x \<le> 0"
  using dbl_nonneg [of "- x"] by (simp add: dbl_minus)

lemma dbl_mono: "x \<le> y \<Longrightarrow> dbl x \<le> dbl y"
proof -
  assume xy: "x \<le> y"
  consider "0 \<le> x" | "x < 0" "0 \<le> y" | "y < 0" by linarith
  then show ?thesis
  proof cases
    case 1
    then show ?thesis using xy by (rule dbl_mono_nonneg)
  next
    case 2
    then show ?thesis using dbl_nonpos [of x] dbl_nonneg [of y] by linarith
  next
    case 3
    then have "dbl (- y) \<le> dbl (- x)" using xy by (intro dbl_mono_nonneg) auto
    then show ?thesis by (simp add: dbl_minus)
  qed
qed

text \<open>An integer below \<open>2^53\<close> in magnitude is a double.\<close>

lemma dbl_of_int:
  assumes "\<bar>n\<bar> < 2 ^ 53"
  shows "dbl (of_int n) = of_int n"
proof (cases "n = 0")
  case True
  then show ?thesis by simp
next
  case False
  let ?e = "expo (of_int n)"
  have up: "?e \<le> 52"
  proof (rule ccontr)
    assume "\<not> ?e \<le> 52"
    then have g: "53 \<le> ?e" by simp
    then have "2 powi ?e \<le> \<bar>of_int n :: real\<bar>" by (intro expo_lower) simp
    moreover have "(2 powi 53 :: real) \<le> 2 powi ?e"
      using g by (intro power_int_increasing) auto
    moreover have "\<bar>of_int n :: real\<bar> < 2 powi 53"
    proof -
      have "real_of_int \<bar>n\<bar> < real_of_int (2 ^ 53)" using assms by (simp only: of_int_less_iff)
      then show ?thesis by simp
    qed
    ultimately show False by linarith
  qed
  define k where "k = nat (52 - ?e)"
  have pk: "(2 powi (?e - 52) :: real) = 1 / 2 ^ k"
  proof -
    have "?e - 52 = - int k" using up by (simp add: k_def)
    then have "(2 powi (?e - 52) :: real) = 2 powi (- int k)" by simp
    also have "\<dots> = inverse (2 powi int k)" by (rule power_int_minus)
    also have "\<dots> = 1 / 2 ^ k" by (simp add: inverse_eq_divide)
    finally show ?thesis .
  qed
  have "\<bar>of_int n :: real\<bar> / 2 powi (?e - 52) = of_int (\<bar>n\<bar> * 2 ^ k)"
    unfolding pk by simp
  then have "round_even (\<bar>of_int n :: real\<bar> / 2 powi (?e - 52)) = \<bar>n\<bar> * 2 ^ k"
    by (simp only: round_even_of_int)
  then have "dbl (of_int n) = sgn (of_int n) * (of_int (\<bar>n\<bar> * 2 ^ k) * (1 / 2 ^ k))"
    unfolding dbl_def pk by simp
  also have "\<dots> = sgn (of_int n :: real) * \<bar>of_int n\<bar>"
    by simp
  also have "\<dots> = of_int n"
    by (simp add: sgn_if)
  finally show ?thesis .
qed

lemma dbl_numeral [simp]: "numeral n < (2 ^ 53 :: int) \<Longrightarrow> dbl (numeral n) = numeral n"
  using dbl_of_int [of "numeral n"] by simp

lemma dbl_one [simp]: "dbl 1 = 1"
  using dbl_of_int [of 1] by simp

subsection \<open>Arithmetic on numbers\<close>

lemma fl_zero [simp]: "fl 0 = Num 0"
  by (simp add: fl_def)

lemma fl_minus: "fl (- x) = negate_n (fl x)"
  by (auto simp: fl_def dbl_minus)

lemma fl_cases: "(\<exists>v. fl x = Num v) \<or> fl x = PosInf \<or> fl x = NegInf"
  by (simp add: fl_def)

lemma fl_nonneg: "0 \<le> x \<Longrightarrow> nonneg (fl x)"
  using dbl_nonneg [of x] by (auto simp: fl_def)

lemma fl_le: "x \<le> y \<Longrightarrow> less_eq_n (fl x) (fl y)"
  using dbl_mono [of x y] dbl_nonneg [of x] dbl_nonneg [of y] dbl_nonpos [of x] dbl_nonpos [of y]
  by (auto simp: fl_def abs_if split: if_splits)

lemma fl_finite:
  assumes "\<bar>x\<bar> \<le> b" "dbl b = b" "b < 2 ^ 1024"
  shows "fl x = Num (dbl x) \<and> \<bar>dbl x\<bar> \<le> b"
proof -
  have "dbl x \<le> dbl b" using assms(1) by (intro dbl_mono) simp
  moreover have "dbl (- b) \<le> dbl x" using assms(1) by (intro dbl_mono) simp
  ultimately have "\<bar>dbl x\<bar> \<le> b" using assms(2) by (simp add: dbl_minus abs_le_iff)
  then show ?thesis using assms(3) by (simp add: fl_def)
qed

lemma fl_eval:
  assumes "2 powi e \<le> \<bar>x\<bar>" "\<bar>x\<bar> < 2 powi (e + 1)" "- 1022 \<le> e" "e \<le> 1022"
  shows "fl x = Num (sgn x * (of_int (round_even (\<bar>x\<bar> / 2 powi (e - 52))) * 2 powi (e - 52)))"
proof -
  have d: "dbl x = sgn x * (of_int (round_even (\<bar>x\<bar> / 2 powi (e - 52))) * 2 powi (e - 52))"
    using assms by (intro dbl_eval) auto
  have "\<bar>x\<bar> / 2 powi (e - 52) \<le> 2 powi (e + 1) / 2 powi (e - 52)"
    using assms(2) by (simp add: divide_right_mono)
  also have "\<dots> = 2 powi ((e + 1) - (e - 52))" by (rule pow2_div)
  also have "\<dots> = 2 powi 53" by (rule arg_cong [where f = "\<lambda>k. 2 powi k"]) simp
  finally have "round_even (\<bar>x\<bar> / 2 powi (e - 52)) \<le> round_even (of_int (2 ^ 53))"
    by (intro round_even_mono) simp
  then have r: "of_int (round_even (\<bar>x\<bar> / 2 powi (e - 52))) \<le> (2 powi 53 :: real)"
    unfolding round_even_of_int by (simp add: of_int_le_iff [symmetric] del: of_int_le_iff)
  have "0 \<le> \<bar>x\<bar> / 2 powi (e - 52)" by simp
  then have "round_even (of_int 0) \<le> round_even (\<bar>x\<bar> / 2 powi (e - 52))"
    by (intro round_even_mono) simp
  then have r0: "0 \<le> round_even (\<bar>x\<bar> / 2 powi (e - 52))"
    unfolding round_even_of_int .
  have pos: "(0::real) < 2 powi e" by (rule zero_less_power_int) simp
  have "x \<noteq> 0"
  proof
    assume "x = 0"
    with assms(1) have "2 powi e \<le> (0::real)" by simp
    with pos show False by linarith
  qed
  then have "\<bar>dbl x\<bar> = of_int (round_even (\<bar>x\<bar> / 2 powi (e - 52))) * 2 powi (e - 52)"
    unfolding d using r0 by (simp add: abs_mult abs_sgn_eq)
  also have "\<dots> \<le> 2 powi 53 * 2 powi (e - 52)"
    using r by (simp add: mult_right_mono)
  also have "\<dots> = 2 powi (53 + (e - 52))" by (rule pow2_mul)
  also have "\<dots> \<le> 2 powi 1023"
    using assms(4) by (intro power_int_increasing) auto
  also have "\<dots> < 2 ^ 1024" by simp
  finally show ?thesis unfolding fl_def d by simp
qed

lemma fl_numeral [simp]: "numeral n < (2 ^ 53 :: int) \<Longrightarrow> fl (numeral n) = Num (numeral n)"
proof -
  assume a: "numeral n < (2 ^ 53 :: int)"
  have "(2 :: int) ^ 53 = 9007199254740992" by simp
  with a have "(numeral n :: int) \<le> 9007199254740991" by linarith
  then have "(of_int (numeral n) :: real) \<le> of_int 9007199254740991"
    by (rule iffD2 [OF of_int_le_iff])
  then have "\<bar>numeral n :: real\<bar> \<le> 9007199254740991" by simp
  moreover have "dbl 9007199254740991 = 9007199254740991" by simp
  ultimately have "fl (numeral n) = Num (dbl (numeral n))"
    using fl_finite [of "numeral n" 9007199254740991] by simp
  then show ?thesis using a by simp
qed

lemma fl_one [simp]: "fl 1 = Num 1"
  using fl_finite [of 1 1] by simp

text \<open>
  The double nearest to a number whose binary exponent is between -7 and 23, for the
  evaluation of the service on concrete inputs.
\<close>

lemmas fl_evals =
  fl_eval [where e = "- 7"]
  fl_eval [where e = "- 6"]
  fl_eval [where e = "- 5"]
  fl_eval [where e = "- 4"]
  fl_eval [where e = "- 3"]
  fl_eval [where e = "- 2"]
  fl_eval [where e = "- 1"]
  fl_eval [where e = "0"]
  fl_eval [where e = "1"]
  fl_eval [where e = "2"]
  fl_eval [where e = "3"]
  fl_eval [where e = "4"]
  fl_eval [where e = "5"]
  fl_eval [where e = "6"]
  fl_eval [where e = "7"]
  fl_eval [where e = "8"]
  fl_eval [where e = "9"]
  fl_eval [where e = "10"]
  fl_eval [where e = "11"]
  fl_eval [where e = "12"]
  fl_eval [where e = "13"]
  fl_eval [where e = "14"]
  fl_eval [where e = "15"]
  fl_eval [where e = "16"]
  fl_eval [where e = "17"]
  fl_eval [where e = "18"]
  fl_eval [where e = "19"]
  fl_eval [where e = "20"]
  fl_eval [where e = "21"]
  fl_eval [where e = "22"]
  fl_eval [where e = "23"]

lemmas dbl_evals =
  dbl_eval [where e = "- 7"]
  dbl_eval [where e = "- 6"]
  dbl_eval [where e = "- 5"]
  dbl_eval [where e = "- 4"]
  dbl_eval [where e = "- 3"]
  dbl_eval [where e = "- 2"]
  dbl_eval [where e = "- 1"]
  dbl_eval [where e = "0"]
  dbl_eval [where e = "1"]
  dbl_eval [where e = "2"]
  dbl_eval [where e = "3"]
  dbl_eval [where e = "4"]
  dbl_eval [where e = "5"]
  dbl_eval [where e = "6"]
  dbl_eval [where e = "7"]
  dbl_eval [where e = "8"]
  dbl_eval [where e = "9"]
  dbl_eval [where e = "10"]
  dbl_eval [where e = "11"]
  dbl_eval [where e = "12"]
  dbl_eval [where e = "13"]
  dbl_eval [where e = "14"]
  dbl_eval [where e = "15"]
  dbl_eval [where e = "16"]
  dbl_eval [where e = "17"]
  dbl_eval [where e = "18"]
  dbl_eval [where e = "19"]
  dbl_eval [where e = "20"]
  dbl_eval [where e = "21"]
  dbl_eval [where e = "22"]
  dbl_eval [where e = "23"]

lemmas js_defs =
  js_plus_def js_minus_def js_times_def js_divide_def js_min_def js_round_def
  js_lt_def js_gt_def js_le_def js_ge_def

lemmas evals = js_defs fl_evals dbl_evals fl_minus round_even_def round_half_up_def


subsection \<open>The operators\<close>

lemma to_number_idem [simp]: "to_number (to_number x) = to_number x"
  by (cases x) simp_all

lemma to_number_fl [simp]: "to_number (fl x) = fl x"
  by (simp add: fl_def)

lemma to_number_times [simp]: "to_number (times_n x y) = times_n x y"
  by (cases x; cases y) simp_all

lemma to_number_divide [simp]: "to_number (divide_n x y) = divide_n x y"
  by (cases x; cases y) simp_all

lemma to_number_plus [simp]: "to_number (plus_n x y) = plus_n x y"
  by (cases x; cases y) simp_all

lemma to_number_round [simp]: "to_number (round_n x) = round_n x"
  by (cases x) simp_all

lemma to_number_min [simp]: "to_number (min_n x y) = min_n x y"
  by (cases x; cases y) simp_all

lemma nonneg_cases: "nonneg x \<Longrightarrow> (\<exists>v. x = Num v \<and> 0 \<le> v) \<or> x = PosInf"
  by (cases x) simp_all

lemma nonneg_times: "nonneg x \<Longrightarrow> 0 < c \<Longrightarrow> nonneg (times_n x (Num c))"
  by (cases x) (simp_all add: fl_nonneg)

lemma nonneg_divide: "nonneg x \<Longrightarrow> 0 < c \<Longrightarrow> nonneg (divide_n x (Num c))"
  by (cases x) (simp_all add: fl_nonneg)







lemma less_n_NaN [simp]: "\<not> less_n NaN x" "\<not> less_n x NaN"
  by (cases x; simp)+

subsection \<open>The tables\<close>

lemma coefficient_pos:
  "0 < dbl 0.90" "0 < dbl 0.85" "0 < dbl 0.95" "0 < dbl 0.82" "0 < dbl 0.60"
  "0 < dbl 0.15" "0 < dbl 0.12" "0 < dbl 0.10" "0 < dbl 0.18"
  by (simp_all add: dbl_evals round_even_def)

lemma not_inherited:
  "\<not> inherited key \<Longrightarrow> key \<noteq> ''__proto__'' \<and> key \<notin> set inherited_functions"
  by (simp add: inherited_def)

lemma runoff_lookup:
  "lookup_or runoffCoefficients m d =
     (if m = ''concrete'' then Num (dbl 0.90)
      else if m = ''tile'' then Num (dbl 0.85)
      else if m = ''metal'' then Num (dbl 0.95)
      else if m = ''asbestos'' then Num (dbl 0.82)
      else if m = ''green'' then Num (dbl 0.60)
      else if m = ''__proto__'' then Obj
      else if m \<in> set inherited_functions then Func
      else Num d)"
  using coefficient_pos
  by (simp add: lookup_or_def lookup_def runoffCoefficients_def js_or_def)

lemma storage_lookup:
  "lookup_or storageRecommendations bt d =
     (if bt = ''residential'' then Num (dbl 0.15)
      else if bt = ''commercial'' then Num (dbl 0.12)
      else if bt = ''industrial'' then Num (dbl 0.10)
      else if bt = ''institutional'' then Num (dbl 0.18)
      else if bt = ''__proto__'' then Obj
      else if bt \<in> set inherited_functions then Func
      else Num d)"
  using coefficient_pos
  by (simp add: lookup_or_def lookup_def storageRecommendations_def js_or_def)


lemma runoff_inherited:
  "inherited m \<Longrightarrow> to_number (lookup_or runoffCoefficients m d) = NaN"
  by (auto simp: runoff_lookup inherited_def inherited_functions_def)


subsection \<open>Water potential\<close>

lemma times_n_NaN [simp]: "times_n x NaN = NaN" "times_n NaN x = NaN"
  by (cases x; simp)+

lemma potential_fields:
  "wp_annual_liters (calculateWaterPotential a r m)
     = js_round (js_times (js_times a r) (lookup_or runoffCoefficients m (dbl 0.85)))"
  "daily_average (calculateWaterPotential a r m)
     = js_round (js_divide (js_times (js_times a r) (lookup_or runoffCoefficients m (dbl 0.85)))
         (Num 365))"
  "monthly_average (calculateWaterPotential a r m)
     = js_round (js_divide (js_times (js_times a r) (lookup_or runoffCoefficients m (dbl 0.85)))
         (Num 12))"
  "runoff_coefficient (calculateWaterPotential a r m) = lookup_or runoffCoefficients m (dbl 0.85)"
  "collection_efficiency (calculateWaterPotential a r m) = Num (dbl 0.95)"
  by (simp_all add: calculateWaterPotential_def Let_def)

lemma potential_inherited:
  assumes "inherited m"
  shows "wp_annual_liters (calculateWaterPotential a r m) = NaN"
    and "daily_average (calculateWaterPotential a r m) = NaN"
    and "monthly_average (calculateWaterPotential a r m) = NaN"
  using assms by (simp_all add: potential_fields js_defs runoff_inherited)


text \<open>
  Claim C7 as stated fails: the calculator rounds the product to the nearest integer, so
  a roof of 10.5 square metres under 650 mm of rain with a tile roof, whose product
  10.5 * 650 * 0.85 is 5801.25, is reported at 5801 liters; and a material that is a
  property name every object inherits, such as \<^verbatim>\<open>constructor\<close>, is not given the
  coefficient 0.85: the table yields a function for it and the liters are \<^verbatim>\<open>NaN\<close>.
\<close>

theorem water_potential_not_exact_product:
  "wp_annual_liters (calculateWaterPotential (Num 10.5) (Num 650) ''tile'') = Num 5801
   \<and> js_times (js_times (Num 10.5) (Num 650)) (Num (dbl 0.85)) = Num 5801.25
   \<and> wp_annual_liters (calculateWaterPotential (Num 100) (Num 800) ''constructor'') = NaN"
  by (simp add: potential_fields runoff_lookup inherited_functions_def evals)

text \<open>
  Claim C7, amended: for every roof area, annual rainfall and roof material the annual
  liters are \<^verbatim>\<open>Math.round\<close> of the product of roof area, rainfall and runoff coefficient,
  computed in doubles from left to right; the coefficient is the double nearest to 0.90
  for concrete, 0.85 for tile, 0.95 for metal, 0.82 for asbestos, 0.60 for green and
  0.85 for any other material that is not a property name every object inherits; for
  such a name the liters are \<^verbatim>\<open>NaN\<close>. A concrete roof of 100 square metres under 800 mm
  yields 72000, and the collection efficiency 0.95 is reported and not applied.
\<close>

theorem water_potential_rounded_product:
  "wp_annual_liters (calculateWaterPotential area rain m) =
     (if inherited m then NaN
      else js_round (js_times (js_times area rain)
             (Num (if m = ''concrete'' then dbl 0.90
                   else if m = ''tile'' then dbl 0.85
                   else if m = ''metal'' then dbl 0.95
                   else if m = ''asbestos'' then dbl 0.82
                   else if m = ''green'' then dbl 0.60
                   else dbl 0.85))))
   \<and> wp_annual_liters (calculateWaterPotential (Num 100) (Num 800) ''concrete'') = Num 72000
   \<and> collection_efficiency (calculateWaterPotential area rain m) = Num (dbl 0.95)"
proof -
  have "wp_annual_liters (calculateWaterPotential (Num 100) (Num 800) ''concrete'') = Num 72000"
    by (simp add: potential_fields runoff_lookup evals)
  moreover have "inherited m \<Longrightarrow> wp_annual_liters (calculateWaterPotential area rain m) = NaN"
    by (rule potential_inherited(1))
  moreover have "\<not> inherited m \<Longrightarrow>
      wp_annual_liters (calculateWaterPotential area rain m) =
        js_round (js_times (js_times area rain)
             (Num (if m = ''concrete'' then dbl 0.90
                   else if m = ''tile'' then dbl 0.85
                   else if m = ''metal'' then dbl 0.95
                   else if m = ''asbestos'' then dbl 0.82
                   else if m = ''green'' then dbl 0.60
                   else dbl 0.85)))"
    by (auto simp: potential_fields(1) runoff_lookup inherited_def)
  ultimately show ?thesis by (simp add: potential_fields(5))
qed




subsection \<open>Structure recommendations\<close>

lemma structure_priorities:
  "priority (primary_storage c) = 1" "priority first_flush = 2"
  "priority (filtration wd b) = 3" "priority recharge_pit = 4"
  by (simp_all add: primary_storage_def first_flush_def filtration_def recharge_pit_def)

lemma structure_costs:
  "estimated_cost (primary_storage c) = js_round (js_plus (js_times c (Num 15)) (Num 5000))"
  "estimated_cost first_flush = Num 2500"
  "estimated_cost (filtration wd b) = Num (if b = ''high'' then 8000 else 4000)"
  "estimated_cost recharge_pit = Num 5000"
  by (simp_all add: primary_storage_def first_flush_def filtration_def recharge_pit_def)

lemma structure_names:
  "st_name (primary_storage c) = ''Primary Storage Tank''"
  "st_name first_flush = ''First Flush Diverter''"
  "st_name (filtration wd b) = ''Multi-stage Filtration''"
  "st_name recharge_pit = ''Groundwater Recharge Pit''"
  by (simp_all add: primary_storage_def first_flush_def filtration_def recharge_pit_def)

lemma tank_capacity: "st_capacity (primary_storage c) = Liters (js_round c)"
  by (simp add: primary_storage_def)

lemma demand_fields:
  "daily_liters (calculateWaterDemand ''residential'' occ) = js_times occ (Num 150)"
  "wd_annual_liters (calculateWaterDemand ''residential'' occ)
     = js_times (js_times occ (Num 150)) (Num 365)"
  by (simp_all add: calculateWaterDemand_def lookup_building_def buildingCoefficients_def Let_def)

text \<open>
  Claim C6 as stated fails in the cost of the tank, "capacity*15 + 5000": the recommender
  rounds it. A concrete roof of 10.001953125 square metres under 650 mm of rain gives
  5851 liters a year; on a residential building the tank then holds 877.65 liters,
  877.65 * 15 + 5000 is 18164.75, and the estimated cost is 18165.
\<close>

theorem tank_cost_is_rounded:
  "wp_annual_liters (calculateWaterPotential (Num (5121 / 512)) (Num 650) ''concrete'') = Num 5851
   \<and> map estimated_cost (filter (\<lambda>s. priority s = 1)
        (generateStructureRecommendations
           (calculateWaterPotential (Num (5121 / 512)) (Num 650) ''concrete'')
           (calculateWaterDemand ''residential'' (Num 4)) ''residential'' ''medium'')) = [Num 18165]
   \<and> js_plus (js_times (js_min (Num 5000) (js_times (Num 5851) (Num (dbl 0.15)))) (Num 15))
        (Num 5000) = Num 18164.75"
proof -
  have L: "wp_annual_liters (calculateWaterPotential (Num (5121 / 512)) (Num 650) ''concrete'')
             = Num 5851"
    by (simp add: potential_fields runoff_lookup evals)
  have c: "js_plus (js_times (js_min (Num 5000) (js_times (Num 5851) (Num (dbl 0.15)))) (Num 15))
        (Num 5000) = Num 18164.75"
    by (simp add: evals)
  have rs: "js_gt (js_times (Num 5851) (Num (dbl 0.15))) (Num 500)"
    by (simp add: evals)
  show ?thesis
    unfolding generateStructureRecommendations_def Let_def L storage_lookup
    using c rs by (simp add: structure_priorities structure_costs js_round_def round_half_up_def)
qed

text \<open>
  Claim C6, amended: for every water potential, water demand, building type and budget
  tier the recommender (a function, so deterministic) gives a list with strictly
  ascending priorities, in which, with \<open>rs\<close> the annual liters times the storage ratio in
  doubles (the ratio being the double nearest to 0.15 for residential, 0.12 for
  commercial, 0.10 for industrial, 0.18 for institutional and 0.15 for any other type
  that is not a property name every object inherits, for which it is a function or an
  object and \<open>rs\<close> is \<^verbatim>\<open>NaN\<close>): the entries of priority 1 are the Primary Storage Tank alone
  when \<open>rs > 500\<close> and none otherwise, the tank having the capacity \<open>min 5000 rs\<close> rounded
  and the cost \<open>min 5000 rs * 15 + 5000\<close> rounded; the entry of priority 2 is the First
  Flush Diverter at 2500; the entry of priority 3 is the Filtration stage at 8000 for
  the budget tier high and 4000 otherwise; the entries of priority 4 are the Recharge
  Pit at 5000 alone when the annual liters exceed 1.5 times the annual demand and none
  otherwise.
\<close>

theorem structure_recommendations_rules:
  "sorted_wrt (<) (map priority (generateStructureRecommendations wp wd bt budget))
   \<and> filter (\<lambda>s. priority s = 1) (generateStructureRecommendations wp wd bt budget)
       = (if js_gt (js_times (wp_annual_liters wp) (lookup_or storageRecommendations bt (dbl 0.15)))
               (Num 500)
          then [primary_storage
                  (js_min (Num 5000)
                     (js_times (wp_annual_liters wp)
                        (lookup_or storageRecommendations bt (dbl 0.15))))]
          else [])
   \<and> lookup_or storageRecommendations bt (dbl 0.15)
       = (if bt = ''residential'' then Num (dbl 0.15)
          else if bt = ''commercial'' then Num (dbl 0.12)
          else if bt = ''industrial'' then Num (dbl 0.10)
          else if bt = ''institutional'' then Num (dbl 0.18)
          else if bt = ''__proto__'' then Obj
          else if bt \<in> set inherited_functions then Func
          else Num (dbl 0.15))
   \<and> st_name (primary_storage c) = ''Primary Storage Tank''
   \<and> st_capacity (primary_storage c) = Liters (js_round c)
   \<and> estimated_cost (primary_storage c) = js_round (js_plus (js_times c (Num 15)) (Num 5000))
   \<and> filter (\<lambda>s. priority s = 2) (generateStructureRecommendations wp wd bt budget) = [first_flush]
   \<and> st_name first_flush = ''First Flush Diverter''
   \<and> estimated_cost first_flush = Num 2500
   \<and> filter (\<lambda>s. priority s = 3) (generateStructureRecommendations wp wd bt budget)
       = [filtration wd budget]
   \<and> st_name (filtration wd budget) = ''Multi-stage Filtration''
   \<and> estimated_cost (filtration wd budget) = Num (if budget = ''high'' then 8000 else 4000)
   \<and> filter (\<lambda>s. priority s = 4) (generateStructureRecommendations wp wd bt budget)
       = (if js_gt (wp_annual_liters wp) (js_times (wd_annual_liters wd) (Num 1.5))
          then [recharge_pit] else [])
   \<and> st_name recharge_pit = ''Groundwater Recharge Pit''
   \<and> estimated_cost recharge_pit = Num 5000"
proof -
  have "sorted_wrt (<) (map priority (generateStructureRecommendations wp wd bt budget))"
    by (simp add: generateStructureRecommendations_def Let_def structure_priorities)
  moreover have "filter (\<lambda>s. priority s = 1) (generateStructureRecommendations wp wd bt budget)
       = (if js_gt (js_times (wp_annual_liters wp) (lookup_or storageRecommendations bt (dbl 0.15)))
               (Num 500)
          then [primary_storage
                  (js_min (Num 5000)
                     (js_times (wp_annual_liters wp)
                        (lookup_or storageRecommendations bt (dbl 0.15))))]
          else [])"
    by (simp add: generateStructureRecommendations_def Let_def structure_priorities)
  moreover have "filter (\<lambda>s. priority s = 2) (generateStructureRecommendations wp wd bt budget)
       = [first_flush]"
    by (simp add: generateStructureRecommendations_def Let_def structure_priorities)
  moreover have "filter (\<lambda>s. priority s = 3) (generateStructureRecommendations wp wd bt budget)
       = [filtration wd budget]"
    by (simp add: generateStructureRecommendations_def Let_def structure_priorities)
  moreover have "filter (\<lambda>s. priority s = 4) (generateStructureRecommendations wp wd bt budget)
       = (if js_gt (wp_annual_liters wp) (js_times (wd_annual_liters wd) (Num 1.5))
          then [recharge_pit] else [])"
    by (simp add: generateStructureRecommendations_def Let_def structure_priorities)
  moreover have "lookup_or storageRecommendations bt (dbl 0.15)
       = (if bt = ''residential'' then Num (dbl 0.15)
          else if bt = ''commercial'' then Num (dbl 0.12)
          else if bt = ''industrial'' then Num (dbl 0.10)
          else if bt = ''institutional'' then Num (dbl 0.18)
          else if bt = ''__proto__'' then Obj
          else if bt \<in> set inherited_functions then Func
          else Num (dbl 0.15))"
    by (rule storage_lookup)
  ultimately show ?thesis
    by (simp only: structure_names structure_costs tank_capacity simp_thms)
qed

subsection \<open>Financing options\<close>

text \<open>
  Claim C9 as stated fails in its last part, "a bank-loan option only when cost > 50000":
  the list always has a bank-loan entry. At a cost of 10000, which is not above 50000, the
  entry is there.
\<close>

theorem bank_loan_listed_at_low_cost:
  "\<not> js_gt (Num 10000) (Num 50000)
   \<and> ''bank_loan'' \<in> set (map option_type (getFinancingOptions (Num 10000) Null))"
  by (simp add: getFinancingOptions_def js_defs)

text \<open>
  Claim C9, amended: for every total installation cost and optional monthly income (the
  household's \<^verbatim>\<open>monthlyIncome || null\<close>) the list has a self-funded option if and only if
  the cost is below 20000, an installment-plan option if and only if a monthly income is
  supplied, is not zero and exceeds cost/24 (the quotient as a double), always a
  government-subsidy option at 30-50% coverage, and always a bank-loan entry, whose flag
  \<^verbatim>\<open>feasible\<close> is true exactly when the cost is above 50000.
\<close>

theorem financing_options_rules:
  "(''self_funded'' \<in> set (map option_type (getFinancingOptions (Num c) (js_or (of_opt income) Null))))
       = (c < 20000)
   \<and> (''monthly_installments''
         \<in> set (map option_type (getFinancingOptions (Num c) (js_or (of_opt income) Null))))
       = (\<exists>i. income = Some i \<and> i \<noteq> 0 \<and> js_gt (Num i) (js_divide (Num c) (Num 24)))
   \<and> GovernmentSubsidy True ''30-50%''
         \<in> set (getFinancingOptions (Num c) (js_or (of_opt income) Null))
   \<and> BankLoan (c > 50000) ''8-12%''
         \<in> set (getFinancingOptions (Num c) (js_or (of_opt income) Null))
   \<and> filter (\<lambda>x. option_type x = ''bank_loan'')
         (getFinancingOptions (Num c) (js_or (of_opt income) Null))
       = [BankLoan (c > 50000) ''8-12%'']"
  by (cases income) (auto simp: getFinancingOptions_def of_opt_def js_or_def js_lt_def js_gt_def)

subsection \<open>Bounds on doubles\<close>

lemma dbl_pow2:
  assumes "- 1022 \<le> k" "k \<le> 1023"
  shows "dbl (2 powi k) = 2 powi k"
proof -
  have p: "(0::real) < 2 powi k" by (rule zero_less_power_int) simp
  have lt: "(2::real) powi k < 2 powi (k + 1)" by (intro power_int_strict_increasing) auto
  have a: "\<bar>2 powi k :: real\<bar> = 2 powi k" using p by simp
  have "(2::real) powi k / 2 powi (k - 52) = 2 powi (k - (k - 52))" by (rule pow2_div)
  also have "\<dots> = 2 powi 52" by (rule arg_cong [where f = "\<lambda>k. 2 powi k"]) simp
  also have "\<dots> = of_int (2 ^ 52)" by simp
  finally have q: "(2::real) powi k / 2 powi (k - 52) = of_int (2 ^ 52)" .
  have "dbl (2 powi k)
          = sgn (2 powi k :: real)
            * (of_int (round_even (\<bar>2 powi k\<bar> / 2 powi (k - 52))) * 2 powi (k - 52))"
    using assms lt by (intro dbl_eval) (simp_all add: a)
  also have "\<dots> = of_int (2 ^ 52) * 2 powi (k - 52)"
    unfolding a q round_even_of_int using p by simp
  also have "\<dots> = 2 powi 52 * 2 powi (k - 52)" by simp
  also have "\<dots> = 2 powi (52 + (k - 52))" by (rule pow2_mul)
  also have "\<dots> = 2 powi k" by (rule arg_cong [where f = "\<lambda>k. 2 powi k"]) simp
  finally show ?thesis .
qed

lemma fl_bound:
  assumes "\<bar>x\<bar> \<le> 2 powi k" "- 1022 \<le> k" "k \<le> 1023"
  shows "\<exists>v. fl x = Num v \<and> \<bar>v\<bar> \<le> 2 powi k"
proof -
  have "(2::real) powi k \<le> 2 powi 1023"
    using assms(3) by (intro power_int_increasing) auto
  also have "\<dots> < 2 ^ 1024" by simp
  finally have "(2::real) powi k < 2 ^ 1024" .
  then show ?thesis
    using fl_finite [OF assms(1) dbl_pow2 [OF assms(2,3)]] by blast
qed

lemma fl_of_int: "\<bar>n\<bar> < 2 ^ 53 \<Longrightarrow> fl (of_int n) = Num (of_int n)"
proof -
  assume a: "\<bar>n\<bar> < 2 ^ 53"
  have "(2 :: int) ^ 53 = 9007199254740992" by simp
  with a have "\<bar>n\<bar> \<le> 9007199254740991" by linarith
  then have "(of_int \<bar>n\<bar> :: real) \<le> of_int 9007199254740991"
    by (rule iffD2 [OF of_int_le_iff])
  then have "\<bar>of_int n :: real\<bar> \<le> 9007199254740991" by simp
  moreover have "dbl 9007199254740991 = 9007199254740991" by simp
  ultimately have "fl (of_int n) = Num (dbl (of_int n))"
    using fl_finite [of "of_int n" 9007199254740991] by simp
  then show ?thesis using a by (simp add: dbl_of_int)
qed

lemma js_plus_int:
  "\<bar>a + b\<bar> < 2 ^ 53 \<Longrightarrow> js_plus (Num (of_int a)) (Num (of_int b)) = Num (of_int (a + b))"
  using fl_of_int [of "a + b"] by (simp add: js_plus_def)

lemma foldl_int_costs:
  "\<forall>n \<in> set ns. 0 \<le> n \<Longrightarrow> 0 \<le> acc \<Longrightarrow> acc + sum_list ns < 2 ^ 53 \<Longrightarrow>
   foldl js_plus (Num (of_int acc)) (map (\<lambda>n. Num (of_int n)) ns) = Num (of_int (acc + sum_list ns))"
proof (induction ns arbitrary: acc)
  case Nil
  then show ?case by simp
next
  case (Cons n ns)
  have r: "0 \<le> sum_list ns" using Cons.prems(1) by (intro sum_list_nonneg) simp
  have n: "0 \<le> n" using Cons.prems(1) by simp
  have "\<bar>acc + n\<bar> < 2 ^ 53" using Cons.prems(2,3) r n by simp
  then have step: "js_plus (Num (of_int acc)) (Num (of_int n)) = Num (of_int (acc + n))"
    by (rule js_plus_int)
  have "foldl js_plus (Num (of_int (acc + n))) (map (\<lambda>n. Num (of_int n)) ns)
          = Num (of_int ((acc + n) + sum_list ns))"
    using Cons.prems n by (intro Cons.IH) (simp_all add: add.assoc)
  then show ?case by (simp add: step add.assoc)
qed

subsection \<open>The total installation cost\<close>

lemma total_cost_map:
  "totalInstallationCost sts = foldl js_plus (Num 0) (map estimated_cost sts)"
  by (simp add: totalInstallationCost_def foldl_map)

lemma tank_cost:
  assumes "js_gt rs (Num 500)"
  shows "\<exists>k. estimated_cost (primary_storage (js_min (Num 5000) rs)) = Num (of_int k)
             \<and> 12500 \<le> k \<and> k \<le> 80000"
proof -
  have "\<exists>m. js_min (Num 5000) rs = Num m \<and> 500 < m \<and> m \<le> 5000"
    using assms by (cases "to_number rs") (simp_all add: js_gt_def js_min_def)
  then obtain m where m: "js_min (Num 5000) rs = Num m" "500 < m" "m \<le> 5000" by blast
  have b1: "\<bar>m * 15\<bar> \<le> 75000" using m by simp
  have "dbl 7500 \<le> dbl (m * 15)" using m by (intro dbl_mono) simp
  then have d: "fl (m * 15) = Num (dbl (m * 15))" "7500 \<le> dbl (m * 15)" "dbl (m * 15) \<le> 75000"
    using fl_finite [OF b1] by simp_all
  have b2: "\<bar>dbl (m * 15) + 5000\<bar> \<le> 80000" using d by simp
  have "dbl 12500 \<le> dbl (dbl (m * 15) + 5000)" using d by (intro dbl_mono) simp
  then have e: "fl (dbl (m * 15) + 5000) = Num (dbl (dbl (m * 15) + 5000))"
      "12500 \<le> dbl (dbl (m * 15) + 5000)" "dbl (dbl (m * 15) + 5000) \<le> 80000"
    using fl_finite [OF b2] by simp_all
  have "estimated_cost (primary_storage (js_min (Num 5000) rs))
          = Num (of_int \<lfloor>dbl (dbl (m * 15) + 5000) + 1 / 2\<rfloor>)"
    by (simp add: structure_costs m(1) js_times_def js_plus_def js_round_def d(1) e(1)
          round_half_up_def)
  moreover have "12500 \<le> \<lfloor>dbl (dbl (m * 15) + 5000) + 1 / 2\<rfloor>"
    using e(2) by (simp add: le_floor_iff)
  moreover have "\<lfloor>dbl (dbl (m * 15) + 5000) + 1 / 2\<rfloor> \<le> 80000"
    using e(3) by (simp add: floor_le_iff)
  ultimately show ?thesis by blast
qed

lemma recommender_costs:
  "map estimated_cost (generateStructureRecommendations wp wd bt budget)
     = (if js_gt (js_times (wp_annual_liters wp) (lookup_or storageRecommendations bt (dbl 0.15)))
             (Num 500)
        then [estimated_cost (primary_storage
                (js_min (Num 5000)
                   (js_times (wp_annual_liters wp)
                      (lookup_or storageRecommendations bt (dbl 0.15)))))]
        else [])
       @ [Num 2500, Num (if budget = ''high'' then 8000 else 4000)]
       @ (if js_gt (wp_annual_liters wp) (js_times (wd_annual_liters wd) (Num 1.5))
          then [Num 5000] else [])"
  by (simp add: generateStructureRecommendations_def Let_def structure_costs)

lemma total_cost_recommender:
  "\<exists>t. totalInstallationCost (generateStructureRecommendations wp wd bt budget) = Num t
       \<and> 6500 \<le> t \<and> t \<le> 95500"
proof -
  let ?rs = "js_times (wp_annual_liters wp) (lookup_or storageRecommendations bt (dbl 0.15))"
  let ?pit = "js_gt (wp_annual_liters wp) (js_times (wd_annual_liters wd) (Num 1.5))"
  have "\<exists>ks. (if js_gt ?rs (Num 500)
              then [estimated_cost (primary_storage (js_min (Num 5000) ?rs))] else [])
             = map (\<lambda>n. Num (of_int n)) ks
           \<and> (\<forall>k \<in> set ks. 0 \<le> k) \<and> sum_list ks \<le> 80000"
  proof (cases "js_gt ?rs (Num 500)")
    case True
    then obtain k where "estimated_cost (primary_storage (js_min (Num 5000) ?rs)) = Num (of_int k)"
        "12500 \<le> k" "k \<le> 80000"
      using tank_cost by blast
    then show ?thesis using True by (intro exI [of _ "[k]"]) simp
  next
    case False
    then show ?thesis by (intro exI [of _ "[]"]) simp
  qed
  then obtain ks where ks:
      "(if js_gt ?rs (Num 500)
        then [estimated_cost (primary_storage (js_min (Num 5000) ?rs))] else [])
         = map (\<lambda>n. Num (of_int n)) ks"
      "\<forall>k \<in> set ks. 0 \<le> k" "sum_list ks \<le> 80000"
    by blast
  define ns where
    "ns = ks @ [2500, if budget = ''high'' then 8000 else 4000] @ (if ?pit then [5000] else [])"
  have costs: "map estimated_cost (generateStructureRecommendations wp wd bt budget)
                 = map (\<lambda>n. Num (of_int n)) ns"
    unfolding recommender_costs ks(1) ns_def by simp
  have nonneg: "\<forall>n \<in> set ns. 0 \<le> n" using ks(2) by (auto simp: ns_def)
  have s0: "0 \<le> sum_list ks" using ks(2) by (intro sum_list_nonneg) simp
  have lower: "6500 \<le> sum_list ns" using s0 by (simp add: ns_def)
  have upper: "sum_list ns \<le> 95500" using ks(3) by (simp add: ns_def)
  have "foldl js_plus (Num (of_int 0)) (map (\<lambda>n. Num (of_int n)) ns)
          = Num (of_int (0 + sum_list ns))"
    using nonneg upper by (intro foldl_int_costs) simp_all
  then have "totalInstallationCost (generateStructureRecommendations wp wd bt budget)
          = Num (of_int (sum_list ns))"
    by (simp add: total_cost_map costs)
  moreover have "(6500 :: real) \<le> of_int (sum_list ns)" using lower by linarith
  moreover have "(of_int (sum_list ns) :: real) \<le> 95500" using upper by linarith
  ultimately show ?thesis by blast
qed

lemma fl_between:
  assumes "lo \<le> x" "x \<le> hi" "0 \<le> lo" "dbl lo = lo" "dbl hi = hi" "hi < 2 ^ 1024"
  shows "fl x = Num (dbl x) \<and> lo \<le> dbl x \<and> dbl x \<le> hi"
proof -
  have "\<bar>x\<bar> \<le> hi" using assms(1-3) by simp
  then have "fl x = Num (dbl x)" "\<bar>dbl x\<bar> \<le> hi"
    using fl_finite [of x hi] assms(5,6) by simp_all
  moreover have "dbl lo \<le> dbl x" using assms(1) by (rule dbl_mono)
  ultimately show ?thesis using assms(4) by simp
qed

lemma dbl_small:
  "dbl (1 / 64) = 1 / 64" "dbl (1 / 16) = 1 / 16"
  by (simp_all add: dbl_evals round_even_def)

lemma cost_per_liter: "\<exists>q. waterCostPerL lat lng = Num q \<and> 1 / 64 \<le> q \<and> q \<le> 1 / 16"
proof -
  have "\<exists>c. lookup_or waterCosts (determineRegion lat lng) 28 = Num c \<and> 20 \<le> c \<and> c \<le> 35"
    by (simp add: determineRegion_def lookup_or_def lookup_def waterCosts_def js_or_def)
  then obtain c where c: "lookup_or waterCosts (determineRegion lat lng) 28 = Num c"
      "20 \<le> c" "c \<le> 35"
    by blast
  have "fl (c / 1000) = Num (dbl (c / 1000)) \<and> 1 / 64 \<le> dbl (c / 1000) \<and> dbl (c / 1000) \<le> 1 / 16"
    using c(2,3) by (intro fl_between) (simp_all add: dbl_small)
  then show ?thesis by (simp add: waterCostPerL_def c(1) js_divide_def)
qed

subsection \<open>Economics\<close>

lemma economics_fields:
  "payback_period_years (calculateEconomics sts wp lat lng inc)
     = js_divide (js_round (js_times (paybackPeriod sts wp lat lng) (Num 10))) (Num 10)"
  "roi_percentage (calculateEconomics sts wp lat lng inc)
     = js_divide (js_round (js_times (roi sts wp lat lng) (Num 10))) (Num 10)"
  "affordability_score (calculateEconomics sts wp lat lng inc)
     = js_round (affordabilityScore sts inc)"
  by (simp_all add: calculateEconomics_def)

lemma round_half_up_abs: "\<bar>round_half_up x\<bar> \<le> \<bar>x\<bar> + 1"
  unfolding round_half_up_def by linarith

lemma roi_finite:
  assumes "wp_annual_liters wp = Num l" "\<bar>l\<bar> < 2 ^ 1024"
    and "totalInstallationCost sts = Num t" "6500 \<le> t" "t \<le> 95500"
  shows "\<exists>v. roi_percentage (calculateEconomics sts wp lat lng income) = Num v"
proof -
  obtain q where q: "waterCostPerL lat lng = Num q" "1 / 64 \<le> q" "q \<le> 1 / 16"
    using cost_per_liter by blast
  have "\<bar>l * q\<bar> \<le> 2 powi 1020"
  proof -
    have "\<bar>l * q\<bar> = \<bar>l\<bar> * q" using q(2) by (simp add: abs_mult)
    also have "\<dots> \<le> 2 ^ 1024 * (1 / 16)" using assms(2) q by (intro mult_mono) simp_all
    also have "\<dots> = 2 powi 1020" by simp
    finally show ?thesis .
  qed
  then obtain s where s: "fl (l * q) = Num s" "\<bar>s\<bar> \<le> 2 powi 1020"
    using fl_bound [of "l * q" 1020] by auto
  have c: "0 \<le> dbl (1 / 20)" "dbl (1 / 20) \<le> 1 / 16"
    by (simp_all add: dbl_evals round_even_def)
  have "\<bar>t * dbl (1 / 20)\<bar> \<le> 2 powi 13"
  proof -
    have "\<bar>t * dbl (1 / 20)\<bar> = t * dbl (1 / 20)" using assms(4) c(1) by (simp add: abs_mult)
    also have "\<dots> \<le> 95500 * (1 / 16)" using assms(4,5) c by (intro mult_mono) simp_all
    also have "\<dots> \<le> 2 powi 13" by simp
    finally show ?thesis .
  qed
  then obtain m where m: "fl (t * dbl (1 / 20)) = Num m" "\<bar>m\<bar> \<le> 2 powi 13"
    using fl_bound [of "t * dbl (1 / 20)" 13] by auto
  have "\<bar>s - m\<bar> \<le> 2 powi 1021"
  proof -
    have "\<bar>s - m\<bar> \<le> \<bar>s\<bar> + \<bar>m\<bar>" by simp
    also have "\<dots> \<le> 2 powi 1020 + 2 powi 13" using s(2) m(2) by simp
    also have "\<dots> \<le> 2 powi 1021" by simp
    finally show ?thesis .
  qed
  then obtain n where n: "fl (s - m) = Num n" "\<bar>n\<bar> \<le> 2 powi 1021"
    using fl_bound [of "s - m" 1021] by auto
  have "\<bar>n / t\<bar> \<le> 2 powi 1009"
  proof -
    have "\<bar>n / t\<bar> = \<bar>n\<bar> / t" using assms(4) by simp
    also have "\<dots> \<le> 2 powi 1021 / 4096" using n(2) assms(4) by (intro frac_le) simp_all
    also have "\<dots> = 2 powi 1009" by simp
    finally show ?thesis .
  qed
  then obtain d where d: "fl (n / t) = Num d" "\<bar>d\<bar> \<le> 2 powi 1009"
    using fl_bound [of "n / t" 1009] by auto
  have "\<bar>d * 100\<bar> \<le> 2 powi 1016"
  proof -
    have "\<bar>d * 100\<bar> = \<bar>d\<bar> * 100" by (simp add: abs_mult)
    also have "\<dots> \<le> 2 powi 1009 * 100" using d(2) by simp
    also have "\<dots> \<le> 2 powi 1016" by simp
    finally show ?thesis .
  qed
  then obtain r where r: "fl (d * 100) = Num r" "\<bar>r\<bar> \<le> 2 powi 1016"
    using fl_bound [of "d * 100" 1016] by auto
  have "\<bar>r * 10\<bar> \<le> 2 powi 1020"
  proof -
    have "\<bar>r * 10\<bar> = \<bar>r\<bar> * 10" by (simp add: abs_mult)
    also have "\<dots> \<le> 2 powi 1016 * 10" using r(2) by simp
    also have "\<dots> \<le> 2 powi 1020" by simp
    finally show ?thesis .
  qed
  then obtain u where u: "fl (r * 10) = Num u" "\<bar>u\<bar> \<le> 2 powi 1020"
    using fl_bound [of "r * 10" 1020] by auto
  have "\<bar>round_half_up u / 10\<bar> \<le> 2 powi 1020"
  proof -
    have "\<bar>round_half_up u / 10\<bar> = \<bar>round_half_up u\<bar> / 10" by simp
    also have "\<dots> \<le> (\<bar>u\<bar> + 1) / 10" using round_half_up_abs [of u] by simp
    also have "\<dots> \<le> (2 powi 1020 + 1) / 10" using u(2) by simp
    also have "\<dots> \<le> 2 powi 1020" by simp
    finally show ?thesis .
  qed
  then obtain v where v: "fl (round_half_up u / 10) = Num v"
    using fl_bound [of "round_half_up u / 10" 1020] by auto
  have t0: "t \<noteq> 0" using assms(4) by simp
  have "roi_percentage (calculateEconomics sts wp lat lng income) = Num v"
    unfolding economics_fields roi_def netAnnualSavings_def annualWaterSavings_def
      annualMaintenanceCost_def assms(1,3) q(1)
    using t0 by (simp add: js_defs s(1) m(1) n(1) d(1) r(1) u(1) v)
  then show ?thesis by blast
qed

lemma affordability_range:
  assumes "totalInstallationCost sts = Num t" "0 < t" "0 < i"
  shows "\<exists>a. affordability_score (calculateEconomics sts wp lat lng (Num i)) = Num a
             \<and> 0 \<le> a \<and> a \<le> 100"
proof -
  let ?x = "times_n (divide_n (fl (i * 12)) (Num t)) (Num 50)"
  have "nonneg (fl (i * 12))" using assms(3) by (intro fl_nonneg) simp
  then have "nonneg (divide_n (fl (i * 12)) (Num t))" using assms(2) by (rule nonneg_divide)
  then have "nonneg ?x" by (rule nonneg_times) simp
  then have "\<exists>b. min_n (Num 100) ?x = Num b \<and> 0 \<le> b \<and> b \<le> 100"
    by (cases ?x) simp_all
  then obtain b where b: "min_n (Num 100) ?x = Num b" "0 \<le> b" "b \<le> 100" by blast
  have "affordability_score (calculateEconomics sts wp lat lng (Num i)) = Num (round_half_up b)"
    using assms(3) by (simp add: economics_fields affordabilityScore_def assms(1) js_defs b(1))
  moreover have "0 \<le> round_half_up b" using b(2) by (simp add: round_half_up_def)
  moreover have "round_half_up b \<le> 100"
    using b(3) by (simp add: round_half_up_def floor_le_iff)
  ultimately show ?thesis by blast
qed

lemma le0_times: "less_eq_n x (Num 0) \<Longrightarrow> 0 < c \<Longrightarrow> less_eq_n (times_n x (Num c)) (Num 0)"
proof (cases x)
  fix a assume "x = Num a" "less_eq_n x (Num 0)" "0 < c"
  then show ?thesis using fl_le [of "a * c" 0] by (simp add: mult_le_0_iff)
qed simp_all

lemma le0_divide: "less_eq_n x (Num 0) \<Longrightarrow> 0 < c \<Longrightarrow> less_eq_n (divide_n x (Num c)) (Num 0)"
proof (cases x)
  fix a assume "x = Num a" "less_eq_n x (Num 0)" "0 < c"
  then show ?thesis using fl_le [of "a / c" 0] by (simp add: divide_le_0_iff)
qed simp_all

lemma le0_round: "less_eq_n x (Num 0) \<Longrightarrow> less_eq_n (round_n x) (Num 0)"
  by (cases x) (simp_all add: round_half_up_def floor_le_iff)

subsection \<open>The examples\<close>

lemma example_liters:
  "wp_annual_liters (example_potential 120) = Num 70200"
  "wp_annual_liters (example_potential 10) = Num 5850"
  "wp_annual_liters (example_potential break_even_area) = Num 173000"
  "wp_annual_liters (example_potential break_even_area_high) = Num 181000"
  by (simp_all add: example_potential_def break_even_area_def break_even_area_high_def
        potential_fields runoff_lookup evals)

lemma example_demand_annual: "wd_annual_liters example_demand = Num 219000"
  by (simp add: example_demand_def demand_fields js_defs)

lemma example_costs:
  "map estimated_cost (example_structures 120 ''medium'') = [Num 80000, Num 2500, Num 4000]"
  "map estimated_cost (example_structures 10 ''medium'') = [Num 18163, Num 2500, Num 4000]"
  "map estimated_cost (example_structures break_even_area ''medium'') = [Num 80000, Num 2500, Num 4000]"
  "map estimated_cost (example_structures break_even_area_high ''high'') = [Num 80000, Num 2500, Num 8000]"
  by (simp_all add: example_structures_def recommender_costs example_liters example_demand_annual
        storage_lookup structure_costs evals)

lemma example_totals:
  "totalInstallationCost (example_structures 120 ''medium'') = Num 86500"
  "totalInstallationCost (example_structures 10 ''medium'') = Num 24663"
  "totalInstallationCost (example_structures break_even_area ''medium'') = Num 86500"
  "totalInstallationCost (example_structures break_even_area_high ''high'') = Num 90500"
  by (simp_all add: total_cost_map example_costs js_defs)

lemma example_region: "waterCostPerL scenario_latitude scenario_longitude = Num (dbl 0.025)"
  by (simp add: waterCostPerL_def determineRegion_def lookup_or_def lookup_def waterCosts_def
        js_or_def scenario_latitude_def scenario_longitude_def evals)

lemma example_net:
  "netAnnualSavings (example_structures 120 ''medium'') (example_potential 120) scenario_latitude scenario_longitude
     = Num (- 2570)"
  "netAnnualSavings (example_structures break_even_area ''medium'') (example_potential break_even_area)
     scenario_latitude scenario_longitude = Num 0"
  "netAnnualSavings (example_structures break_even_area_high ''high'') (example_potential break_even_area_high)
     scenario_latitude scenario_longitude = Num 0"
  by (simp_all add: netAnnualSavings_def annualWaterSavings_def annualMaintenanceCost_def
        example_totals example_liters example_region evals)

text \<open>
  Claim C2 as stated fails: the calculator has no sentinel. With a concrete roof of
  295.7265625 square metres the savings and the maintenance are both 4325, the net
  savings are zero and the payback period is \<^verbatim>\<open>Infinity\<close>, which the cache and every JSON
  response carry as \<^verbatim>\<open>null\<close>; with a roof of 10 square metres the net savings are negative
  and the payback period is the negative number -22.7.
\<close>

theorem payback_without_sentinel:
  "net_annual_savings (example_economics break_even_area ''medium'') = Num 0
   \<and> payback_period_years (example_economics break_even_area ''medium'') = PosInf
   \<and> json_num (payback_period_years (example_economics break_even_area ''medium'')) = Null
   \<and> payback_period_years (example_economics 10 ''medium'') = Num (- dbl 22.7)"
proof -
  have "netAnnualSavings (example_structures 10 ''medium'') (example_potential 10) scenario_latitude scenario_longitude
     = Num (- (2390118376459469 / 2199023255552))"
    by (simp add: netAnnualSavings_def annualWaterSavings_def annualMaintenanceCost_def
        example_totals example_liters example_region evals)
  then have "payback_period_years (example_economics 10 ''medium'') = Num (- dbl 22.7)"
    by (simp add: example_economics_def economics_fields paybackPeriod_def example_totals evals)
  then show ?thesis
    by (simp add: example_economics_def calculateEconomics_def paybackPeriod_def example_totals
          example_net js_defs round_half_up_def)
qed

text \<open>
  Claim C2, amended: for every structure list whose total installation cost is a
  number of at least 1 (the recommender's lists cost at least 6500) and every water
  potential with net annual savings (annual water savings minus 5% maintenance on the
  total installation cost) that are a number less than or equal to zero, the calculator
  does not throw (it is a total function) and reports no sentinel: the payback period is
  \<^verbatim>\<open>Infinity\<close>, in JSON \<^verbatim>\<open>null\<close>, when the net savings are zero, and otherwise the quotient
  of total cost and net savings rounded to one decimal, which is not above zero.
\<close>

theorem payback_when_savings_not_positive:
  assumes "totalInstallationCost sts = Num t" "1 \<le> t"
    and "netAnnualSavings sts wp lat lng = Num n" "n \<le> 0"
  shows "payback_period_years (calculateEconomics sts wp lat lng income)
           = (if n = 0 then PosInf
              else js_divide (js_round (js_times (fl (t / n)) (Num 10))) (Num 10))
       \<and> (if n = 0
          then json_num (payback_period_years (calculateEconomics sts wp lat lng income)) = Null
          else js_le (payback_period_years (calculateEconomics sts wp lat lng income)) (Num 0))"
proof (cases "n = 0")
  case True
  then have "payback_period_years (calculateEconomics sts wp lat lng income) = PosInf"
    using assms(2) by (simp add: economics_fields paybackPeriod_def assms(1,3) js_defs)
  then show ?thesis using True by simp
next
  case False
  have p: "paybackPeriod sts wp lat lng = fl (t / n)"
    using False by (simp add: paybackPeriod_def assms(1,3) js_defs)
  have "t / n \<le> 0" using assms(2,4) by (simp add: divide_le_0_iff)
  then have "less_eq_n (fl (t / n)) (Num 0)" using fl_le [of "t / n" 0] by simp
  then have "less_eq_n (times_n (fl (t / n)) (Num 10)) (Num 0)" by (rule le0_times) simp
  then have "less_eq_n (round_n (times_n (fl (t / n)) (Num 10))) (Num 0)" by (rule le0_round)
  then have "less_eq_n (divide_n (round_n (times_n (fl (t / n)) (Num 10))) (Num 10)) (Num 0)"
    by (rule le0_divide) simp
  then show ?thesis using False by (simp add: economics_fields p js_defs)
qed

theorem payback_when_savings_not_positive_witness:
  "totalInstallationCost (example_structures 120 ''medium'') = Num 86500
   \<and> netAnnualSavings (example_structures 120 ''medium'') (example_potential 120)
        scenario_latitude scenario_longitude = Num (- 2570)
   \<and> payback_period_years (example_economics 120 ''medium'')
        = js_divide (js_round (js_times (fl (86500 / - 2570)) (Num 10))) (Num 10)
   \<and> js_le (payback_period_years (example_economics 120 ''medium'')) (Num 0)"
  using payback_when_savings_not_positive
          [of "example_structures 120 ''medium''" 86500 "example_potential 120" scenario_latitude
              scenario_longitude "- 2570" Null]
  by (simp add: example_totals example_net example_economics_def evals)

text \<open>
  Claim C10 as stated fails in its last part: the payback period is the total cost
  divided by the net annual savings, not a division by the total cost, and the net
  savings can be zero. With a concrete roof of 309.40234375 square metres and the
  budget tier high, the total cost is 90500, savings and maintenance are both 4525, and the
  payback period is 90500 / 0.
\<close>

theorem payback_divides_by_zero_savings:
  "totalInstallationCost (example_structures break_even_area_high ''high'') = Num 90500
   \<and> netAnnualSavings (example_structures break_even_area_high ''high'') (example_potential break_even_area_high)
        scenario_latitude scenario_longitude = Num 0
   \<and> paybackPeriod (example_structures break_even_area_high ''high'') (example_potential break_even_area_high)
        scenario_latitude scenario_longitude = js_divide (Num 90500) (Num 0)
   \<and> js_divide (Num 90500) (Num 0) = PosInf"
  by (simp add: paybackPeriod_def example_totals example_net js_defs)

text \<open>
  Claim C10, amended: for every input to the recommender the returned list contains the
  First Flush Diverter (cost 2500) and the Filtration stage (cost 4000, or 8000 for the
  budget tier high), and the total installation cost summed by the calculator is a
  number between 6500 and 95500; hence the divisions by the total cost in ROI percentage
  and affordability score are never divisions by zero: the ROI percentage is a finite
  number whenever the annual liters are, and the affordability score is a number between
  0 and 100 for a positive monthly income and 70 without one. (The payback period
  divides by the net annual savings.)
\<close>

theorem total_cost_at_least_6500:
  "first_flush \<in> set (generateStructureRecommendations wp wd bt budget)
   \<and> filtration wd budget \<in> set (generateStructureRecommendations wp wd bt budget)
   \<and> estimated_cost first_flush = Num 2500
   \<and> estimated_cost (filtration wd budget) = Num (if budget = ''high'' then 8000 else 4000)
   \<and> (\<exists>t. totalInstallationCost (generateStructureRecommendations wp wd bt budget) = Num t
          \<and> 6500 \<le> t \<and> t \<le> 95500
          \<and> (\<forall>x. js_divide (Num x)
                     (totalInstallationCost (generateStructureRecommendations wp wd bt budget))
                   = fl (x / t)))
   \<and> (wp_annual_liters wp = Num l \<and> \<bar>l\<bar> < 2 ^ 1024 \<longrightarrow>
        (\<exists>v. roi_percentage
               (calculateEconomics (generateStructureRecommendations wp wd bt budget) wp lat lng
                  income) = Num v))
   \<and> (0 < i \<longrightarrow>
        (\<exists>a. affordability_score
               (calculateEconomics (generateStructureRecommendations wp wd bt budget) wp lat lng
                  (Num i)) = Num a \<and> 0 \<le> a \<and> a \<le> 100))
   \<and> affordability_score
        (calculateEconomics (generateStructureRecommendations wp wd bt budget) wp lat lng Null)
       = Num 70"
proof -
  let ?sts = "generateStructureRecommendations wp wd bt budget"
  obtain t where t: "totalInstallationCost ?sts = Num t" "6500 \<le> t" "t \<le> 95500"
    using total_cost_recommender by blast
  have members: "first_flush \<in> set ?sts" "filtration wd budget \<in> set ?sts"
    by (simp_all add: generateStructureRecommendations_def Let_def)
  have division: "\<forall>x. js_divide (Num x) (totalInstallationCost ?sts) = fl (x / t)"
    using t(2) by (simp add: t(1) js_divide_def)
  have total: "\<exists>t. totalInstallationCost ?sts = Num t \<and> 6500 \<le> t \<and> t \<le> 95500
                 \<and> (\<forall>x. js_divide (Num x) (totalInstallationCost ?sts) = fl (x / t))"
    using t division by blast
  have finite: "wp_annual_liters wp = Num l \<and> \<bar>l\<bar> < 2 ^ 1024 \<longrightarrow>
        (\<exists>v. roi_percentage (calculateEconomics ?sts wp lat lng income) = Num v)"
    using roi_finite [OF _ _ t] by blast
  have range: "0 < i \<longrightarrow>
        (\<exists>a. affordability_score (calculateEconomics ?sts wp lat lng (Num i)) = Num a
            \<and> 0 \<le> a \<and> a \<le> 100)"
    using affordability_range [OF t(1)] t(2) by simp
  have absent: "affordability_score (calculateEconomics ?sts wp lat lng Null) = Num 70"
    by (simp add: economics_fields affordabilityScore_def js_round_def round_half_up_def)
  show ?thesis
    using members total finite range absent by (simp only: structure_costs simp_thms)
qed

theorem total_cost_at_least_6500_witness:
  "wp_annual_liters (example_potential 120) = Num 70200
   \<and> \<bar>70200 :: real\<bar> < 2 ^ 1024
   \<and> (\<exists>v. roi_percentage (example_economics 120 ''medium'') = Num v)
   \<and> (0 :: real) < 30000
   \<and> (\<exists>a. affordability_score
            (calculateEconomics (example_structures 120 ''medium'') (example_potential 120)
               scenario_latitude scenario_longitude (Num 30000)) = Num a \<and> 0 \<le> a \<and> a \<le> 100)"
  using total_cost_at_least_6500
          [of "example_potential 120" example_demand "''residential''" "''medium''" 70200
              scenario_latitude scenario_longitude Null 30000]
  by (simp add: example_liters example_economics_def example_structures_def)

subsection \<open>Rainfall fallback\<close>

text \<open>
  Claim C3 as stated fails for a malformed response: a reply that arrives is returned as
  it is, whatever its body. A body with neither \<^verbatim>\<open>status\<close> nor \<^verbatim>\<open>annual_prediction\<close> comes
  back unchanged, without the provenance \<^verbatim>\<open>estimated\<close> and without a rainfall, and the
  assessment that reads its rainfall fails.
\<close>

theorem malformed_rainfall_reply_kept:
  "getRainfallData True
      (Resolves \<lparr>rf_status = None, rf_annual_prediction = None, rf_monsoon_analysis = None\<rparr>)
      scenario_latitude scenario_longitude
     = Inr \<lparr>rf_status = None, rf_annual_prediction = None, rf_monsoon_analysis = None\<rparr>
   \<and> fst (performAssessment
        ((offline ''d-1'' 0 2000)
           \<lparr>rainfall_reply :=
              Resolves \<lparr>rf_status = None, rf_annual_prediction = None, rf_monsoon_analysis = None\<rparr>\<rparr>)
        scenario_params empty_world)
     = Inl (AssessmentFailed (ReadOfUndefined ''total_rainfall''))"
  by (simp add: getRainfallData_def performAssessment_def attempt_def log_call_def offline_def
        getCache_def empty_world_def computeAssessment_def householdOf_def scenario_params_def
        of_opt_def resolveRoof_def afterRoof_def)

text \<open>
  Claim C3, amended: for every coordinate, whenever the call to the rainfall collaborator
  is rejected (a transport error, an error status, a timeout the HTTP client reports) and
  the exported logger has its method \<^verbatim>\<open>warn\<close>, the estimator returns the provenance
  \<^verbatim>\<open>estimated\<close> and the regional default (latitude above 28: 650; latitude below 15: 920;
  otherwise longitude below 77: 550; longitude above 85: 1200; else 850), and does not
  fail; without that method the fallback raises a \<^verbatim>\<open>TypeError\<close>. A response that arrives
  is returned as it is.
\<close>

theorem rainfall_fallback_regional_default:
  "getRainfallData True (Rejects msg) lat lng
     = Inr \<lparr>rf_status = Some ''estimated'',
            rf_annual_prediction =
              Some \<lparr>total_rainfall =
                       Num (if lat > 28 then 650 else if lat < 15 then 920
                            else if lng < 77 then 550 else if lng > 85 then 1200 else 850),
                    deviation_percent = Num 0\<rparr>,
            rf_monsoon_analysis = Some \<lparr>intensity = ''Normal'', peak_month = ''2024-07''\<rparr>\<rparr>
   \<and> getRainfallData False (Rejects msg) lat lng = Inl (NotAFunction ''logger.warn'')
   \<and> getRainfallData lg (Resolves d) lat lng = Inr d"
  by (simp add: getRainfallData_def log_call_def determineRegion_def lookup_or_def lookup_def
        regionalRainfall_def js_or_def)

subsection \<open>Overall score\<close>

lemma steps_fields:
  "waterPotential (assembleSteps p hh rf rd area rain fs)
     = calculateWaterPotential area rain (or_str (roofType p) ''concrete'')"
  "feasibility (assembleSteps p hh rf rd area rain fs) = fs"
  "economics_step (assembleSteps p hh rf rd area rain fs)
     = calculateEconomics
         (generateStructureRecommendations
            (calculateWaterPotential area rain (or_str (roofType p) ''concrete''))
            (calculateWaterDemand (or_str (buildingType p) ''residential'') (hh_size hh))
            (or_str (buildingType p) ''residential'') (or_str (budgetRange p) ''medium''))
         (calculateWaterPotential area rain (or_str (roofType p) ''concrete''))
         (latitude p) (longitude p) (monthly_income hh)"
  "environmental_step (assembleSteps p hh rf rd area rain fs)
     = calculateEnvironmentalImpact
         (wp_annual_liters (calculateWaterPotential area rain (or_str (roofType p) ''concrete'')))
         (or_str (buildingType p) ''residential'')"
  by (simp_all add: assembleSteps_def Let_def)

lemma scenario_strings:
  "or_str (roofType scenario_params) ''concrete'' = ''concrete''"
  "or_str (buildingType scenario_params) ''residential'' = ''residential''"
  "or_str (budgetRange scenario_params) ''medium'' = ''medium''"
  "latitude scenario_params = scenario_latitude"
  "longitude scenario_params = scenario_longitude"
  by (simp_all add: scenario_params_def or_str_def truthy_str_def)

lemma scenario_fields:
  "waterPotential scenario_steps = example_potential 120"
  "feasibility scenario_steps = scenario_feasibility"
  "economics_step scenario_steps = example_economics 120 ''medium''"
  "environmental_step scenario_steps
     = calculateEnvironmentalImpact (wp_annual_liters (example_potential 120)) ''residential''"
  by (simp_all add: scenario_steps_def steps_fields scenario_strings example_potential_def
        example_economics_def example_structures_def example_demand_def)

lemma scenario_scores:
  "feasibilityScore scenario_steps = Num 75"
  "economicsScore scenario_steps = Num (- 15)"
  "environmentalScore scenario_steps = Num 100"
  "technicalScore scenario_steps = Num 80"
  "socialScore scenario_steps = Num 85"
proof -
  show "feasibilityScore scenario_steps = Num 75"
    by (simp add: feasibilityScore_def scenario_fields scenario_feasibility_def js_or_def)
  have "roi (example_structures 120 ''medium'') (example_potential 120)
          scenario_latitude scenario_longitude = Num (- (418144907599067 / 140737488355328))"
    by (simp add: roi_def example_net example_totals evals)
  then have "roi_percentage (example_economics 120 ''medium'') = Num (- 3)"
    by (simp add: example_economics_def economics_fields evals)
  then show "economicsScore scenario_steps = Num (- 15)"
    by (simp add: economicsScore_def scenario_fields evals)
  show "environmentalScore scenario_steps = Num 100"
    by (simp add: environmentalScore_def scenario_fields calculateEnvironmentalImpact_def
          example_liters evals)
  show "technicalScore scenario_steps = Num 80"
    by (simp add: technicalScore_def scenario_fields scenario_feasibility_def js_or_def)
  show "socialScore scenario_steps = Num 85"
    by (simp add: socialScore_def scenario_fields example_liters js_defs)
qed

lemma weights_fields:
  "w_feasibility score_weights = Num (dbl 0.3)" "w_economics score_weights = Num 0.25"
  "w_environmental score_weights = Num (dbl 0.2)" "w_technical score_weights = Num (dbl 0.15)"
  "w_social score_weights = Num (dbl 0.1)"
  by (simp_all add: score_weights_def)

text \<open>
  The thresholds are applied to the sum as it is computed in doubles: the sub-scores 77,
  -15, 100, 81 and 85, whose weighted sum is 60, add up to 59.99999999999999 and get
  the grade for a score below 60.
\<close>

lemma grade_of_double_sum:
  "weighted_sum (Num 77) (Num (- 15)) (Num 100) (Num 81) (Num 85)
     = Num (8444249301319679 / 140737488355328)
   \<and> getGrade (weighted_sum (Num 77) (Num (- 15)) (Num 100) (Num 81) (Num 85)) = ''C+''
   \<and> (77 * 0.3 + - 15 * 0.25 + 100 * 0.2 + 81 * 0.15 + 85 * 0.1 :: real) = 60"
proof -
  have "weighted_sum (Num 77) (Num (- 15)) (Num 100) (Num 81) (Num 85)
     = Num (8444249301319679 / 140737488355328)"
    by (simp add: weighted_sum_def weights_fields evals)
  then show ?thesis by (simp add: getGrade_def js_defs)
qed

text \<open>
  Claim C5 as stated fails: the overall score that is returned is the weighted sum
  rounded to an integer. In the end-to-end scenario the sub-scores are 75, min(100, -3*5),
  100, 80 and 85, the weighted sum is 59.25 and the overall score is 59.
\<close>

theorem overall_score_is_rounded:
  "overallScore scenario_steps = Num 59.25
   \<and> overall (calculateOverallScore scenario_steps) = Num 59
   \<and> feasibilityScore scenario_steps = Num 75
   \<and> economicsScore scenario_steps = Num (- 15)
   \<and> environmentalScore scenario_steps = Num 100
   \<and> technicalScore scenario_steps = Num 80
   \<and> socialScore scenario_steps = Num 85"
proof -
  have "overallScore scenario_steps = Num 59.25"
    by (simp add: overallScore_def scenario_scores weighted_sum_def weights_fields evals)
  then have "overall (calculateOverallScore scenario_steps) = Num 59"
    by (simp add: calculateOverallScore_def js_round_def round_half_up_def)
  then show ?thesis
    using \<open>overallScore scenario_steps = Num 59.25\<close> by (simp add: scenario_scores)
qed

text \<open>
  Claim C5, amended: for every assessment the overall score is the weighted sum, rounded
  to the nearest integer, of the feasibility score (75 when it is absent, null, zero or
  not a number; weight 0.30), min(100, roi_percentage*5) (weight 0.25), the environmental
  score (weight 0.20), the technical sub-score of the feasibility scorer (75 when it is
  absent, null, zero or not a number; weight 0.15) and a social score of 85 if the annual water potential exceeds 10,000
  liters, else 65 (weight 0.10), the products and the sum computed in doubles from left
  to right; the weights add up to 1; the grade and the recommendation are taken from the
  weighted sum before rounding, with inclusive thresholds (at least 90 "A+", 80 "A", 70
  "B+", 60 "B", 50 "C+", else "C"; at least 80 "Highly Recommended", 60 "Recommended",
  40 "Consider with Modifications", else "Not Recommended"), the last of each also for a
  sum that is not a number.
\<close>

theorem overall_score_weighted_sum:
  "(let S = js_plus (js_plus (js_plus (js_plus
              (js_times (js_or (feasibility_score (feasibility s)) (Num 75)) (Num (dbl 0.3)))
              (js_times (js_min (Num 100) (js_times (roi_percentage (economics_step s)) (Num 5)))
                 (Num 0.25)))
              (js_times (environmental_score (environmental_step s)) (Num (dbl 0.2))))
              (js_times (js_or (case fs_technical_analysis (feasibility s) of
                                  None \<Rightarrow> Undefined
                                | Some ta \<Rightarrow> technical_score ta) (Num 75))
                 (Num (dbl 0.15))))
              (js_times (if js_gt (wp_annual_liters (waterPotential s)) (Num 10000)
                         then Num 85 else Num 65)
                 (Num (dbl 0.1)))
    in overall (calculateOverallScore s) = js_round S
       \<and> grade (calculateOverallScore s) = getGrade S
       \<and> recommendation (calculateOverallScore s) = getRecommendationLevel S)
   \<and> js_plus (js_plus (js_plus (js_plus (Num (dbl 0.3)) (Num 0.25)) (Num (dbl 0.2)))
        (Num (dbl 0.15))) (Num (dbl 0.1)) = Num 1
   \<and> getGrade (Num x) =
        (if x \<ge> 90 then ''A+'' else if x \<ge> 80 then ''A'' else if x \<ge> 70 then ''B+''
         else if x \<ge> 60 then ''B'' else if x \<ge> 50 then ''C+'' else ''C'')
   \<and> getRecommendationLevel (Num x) =
        (if x \<ge> 80 then ''Highly Recommended'' else if x \<ge> 60 then ''Recommended''
         else if x \<ge> 40 then ''Consider with Modifications'' else ''Not Recommended'')
   \<and> getGrade NaN = ''C'' \<and> getRecommendationLevel NaN = ''Not Recommended''"
proof -
  have sum: "js_plus (js_plus (js_plus (js_plus (Num (dbl 0.3)) (Num 0.25)) (Num (dbl 0.2)))
        (Num (dbl 0.15))) (Num (dbl 0.1)) = Num 1"
    by (simp add: evals)
  have thresholds:
    "getGrade (Num x) =
        (if x \<ge> 90 then ''A+'' else if x \<ge> 80 then ''A'' else if x \<ge> 70 then ''B+''
         else if x \<ge> 60 then ''B'' else if x \<ge> 50 then ''C+'' else ''C'')"
    "getRecommendationLevel (Num x) =
        (if x \<ge> 80 then ''Highly Recommended'' else if x \<ge> 60 then ''Recommended''
         else if x \<ge> 40 then ''Consider with Modifications'' else ''Not Recommended'')"
    "getGrade NaN = ''C''" "getRecommendationLevel NaN = ''Not Recommended''"
    by (simp_all add: getGrade_def getRecommendationLevel_def js_ge_def)
  have score: "overallScore s =
      js_plus (js_plus (js_plus (js_plus
              (js_times (js_or (feasibility_score (feasibility s)) (Num 75)) (Num (dbl 0.3)))
              (js_times (js_min (Num 100) (js_times (roi_percentage (economics_step s)) (Num 5)))
                 (Num 0.25)))
              (js_times (environmental_score (environmental_step s)) (Num (dbl 0.2))))
              (js_times (js_or (case fs_technical_analysis (feasibility s) of
                                  None \<Rightarrow> Undefined
                                | Some ta \<Rightarrow> technical_score ta) (Num 75))
                 (Num (dbl 0.15))))
              (js_times (if js_gt (wp_annual_liters (waterPotential s)) (Num 10000)
                         then Num 85 else Num 65)
                 (Num (dbl 0.1)))"
    by (simp add: overallScore_def weighted_sum_def weights_fields feasibilityScore_def
          economicsScore_def environmentalScore_def technicalScore_def socialScore_def)
  have fields: "overall (calculateOverallScore s) = js_round (overallScore s)"
    "grade (calculateOverallScore s) = getGrade (overallScore s)"
    "recommendation (calculateOverallScore s) = getRecommendationLevel (overallScore s)"
    by (simp_all add: calculateOverallScore_def)
  show ?thesis
    unfolding Let_def fields score [symmetric] using sum thresholds by simp
qed

subsection \<open>The orchestrator: store failure and cache\<close>

lemma computeAssessment_world:
  "computeAssessment e p w = (r, w1) \<Longrightarrow> cache w1 = cache w \<and> store w1 = store w"
  by (auto simp: computeAssessment_def afterRoof_def roofEffects_def emit_def
           split: sum.splits option.splits if_splits)

lemma computeAssessment_fresh:
  "computeAssessment e p w = (Inr a, w1) \<Longrightarrow>
     a_id a = fresh_id e \<and> cached a = False \<and> timestamp a = t_start e"
  by (auto simp: computeAssessment_def afterRoof_def completed_def
           split: sum.splits option.splits)

lemma computeAssessment_Inr:
  assumes "householdOf p = Inr hh"
    and "getRainfallData (log_ok e) (rainfall_reply e) (latitude p) (longitude p) = Inr rf"
    and "rf_annual_prediction rf = Some ap"
    and "resolveRoof e p = Inr rd"
    and "getFeasibilityAnalysis (log_ok e) (feasibility_reply e) (resolvedArea p rd)
           (total_rainfall ap) = Inr fs"
  shows "computeAssessment e p w =
           (Inr (completed e p hh (resolvedArea p rd)
                   (assembleSteps p hh rf rd (resolvedArea p rd) (total_rainfall ap) fs)),
            emit FeasibilityCalculate (roofEffects p (emit RainfallPredict w)))"
  by (simp add: computeAssessment_def afterRoof_def assms)

lemma performAssessment_without_logger:
  "\<not> log_ok e \<Longrightarrow> performAssessment e p w = (Inl (Uncaught (NotAFunction ''logger.error'')), w)"
  by (simp add: performAssessment_def attempt_def log_call_def)

lemma performAssessment_logged:
  "performAssessment e p w = (Inr a, w1) \<Longrightarrow> log_ok e"
  using performAssessment_without_logger [of e p w] by (cases "log_ok e") simp_all

lemma performAssessment_miss:
  assumes "getCache (log_ok e) (cache_get_ok e) w (t_start e) (generateCacheKey p) = Inr None"
    and "performAssessment e p w = (Inr a, w1)"
  shows "\<exists>w'. computeAssessment e p w = (Inr a, w') \<and> store_error e = None
    \<and> w1 = snd (setCache True (cache_set_ok e) ((emit StoreInsert w')\<lparr>store := store w' @ [a]\<rparr>)
                   (t_end e) (generateCacheKey p) a cacheTtl)"
proof -
  have l: "log_ok e" using assms(2) by (rule performAssessment_logged)
  show ?thesis
    using assms
    by (auto simp: performAssessment_def attempt_def l log_call_def saveAssessment_def
                   setCache_def Let_def
             split: prod.splits sum.splits option.splits)
qed

lemma performAssessment_hit_after_miss:
  assumes first: "performAssessment e1 p1 w = (Inr a1, w1)"
    and miss: "getCache (log_ok e1) (cache_get_ok e1) w (t_start e1) (generateCacheKey p1) = Inr None"
    and up: "cache_set_ok e1" "cache_get_ok e2" "log_ok e2"
    and key: "generateCacheKey p2 = generateCacheKey p1"
    and ttl: "t_start e2 < t_end e1 + cacheTtl * 1000"
  shows "performAssessment e2 p2 w1 =
           (Inr ((json_assessment a1)\<lparr>a_id := fresh_id e2, cached := True\<rparr>), w1)"
proof -
  from performAssessment_miss [OF miss first] obtain w' where
    w1: "w1 = snd (setCache True (cache_set_ok e1)
                     ((emit StoreInsert w')\<lparr>store := store w' @ [a1]\<rparr>)
                     (t_end e1) (generateCacheKey p1) a1 cacheTtl)"
    by blast
  have hit: "getCache True (cache_get_ok e2) w1 (t_start e2) (generateCacheKey p2)
               = Inr (Some (json_assessment a1))"
    unfolding w1 key using up ttl by (simp add: getCache_def setCache_def log_call_def)
  show ?thesis
    by (simp add: performAssessment_def attempt_def up(3) log_call_def hit)
qed

lemma performAssessment_computes:
  assumes logs: "log_ok e"
    and miss: "getCache True (cache_get_ok e) w (t_start e) (generateCacheKey p) = Inr None"
    and complete: "computeAssessment e p w = (Inr a, w1)"
    and ok: "store_error e = None"
  shows "performAssessment e p w =
           (Inr a, snd (setCache True (cache_set_ok e)
                          ((emit StoreInsert w1)\<lparr>store := store w1 @ [a]\<rparr>)
                          (t_end e) (generateCacheKey p) a cacheTtl))"
  by (simp add: performAssessment_def attempt_def logs log_call_def miss complete ok
        saveAssessment_def setCache_def)

lemma offline_fields:
  "log_ok (offline i t1 t2)" "cache_get_ok (offline i t1 t2)" "cache_set_ok (offline i t1 t2)"
  "store_error (offline i t1 t2) = None" "t_start (offline i t1 t2) = t1"
  "t_end (offline i t1 t2) = t2" "fresh_id (offline i t1 t2) = i"
  "rainfall_reply (offline i t1 t2) = Rejects ''connect ECONNREFUSED''"
  "roof_reply (offline i t1 t2) = Rejects ''connect ECONNREFUSED''"
  "feasibility_reply (offline i t1 t2) = Rejects ''connect ECONNREFUSED''"
  by (simp_all add: offline_def)

lemma scenario_household:
  "householdOf (scenario_params\<lparr>roofArea := r\<rparr>) = Inr \<lparr>hh_size = Num 4, monthly_income = Null\<rparr>"
  by (simp add: householdOf_def scenario_params_def of_opt_def js_or_def)

lemma empty_world_miss: "getCache True b empty_world t k = Inr None"
  by (simp add: getCache_def empty_world_def log_call_def)

text \<open>
  The scenario with any roof area in the request and any environment that differs from
  \<open>offline\<close> in the store only: the computation completes.
\<close>

lemma scenario_computes:
  assumes "log_ok e" "rainfall_reply e = Rejects m1" "roof_reply e = Rejects m2"
    "feasibility_reply e = Rejects m3"
  shows "\<exists>a. computeAssessment e (scenario_params\<lparr>roofArea := r\<rparr>) w
               = (Inr a, emit FeasibilityCalculate (emit RainfallPredict w))
           \<and> roof_area (a_building a) = (if truthy (of_opt r) then of_opt r else Num 100)"
proof -
  let ?p = "scenario_params\<lparr>roofArea := r\<rparr>"
  let ?rd = "if truthy (of_opt r) then None else Some (roofFallback (Some ''residential''))"
  have p: "imageUrl ?p = None" "buildingType ?p = Some ''residential''" "roofArea ?p = r"
    by (simp_all add: scenario_params_def)
  have rf: "getRainfallData (log_ok e) (rainfall_reply e) (latitude ?p) (longitude ?p)
              = Inr \<lparr>rf_status = Some ''estimated'',
                     rf_annual_prediction =
                       Some \<lparr>total_rainfall =
                                lookup_or regionalRainfall
                                  (determineRegion (latitude ?p) (longitude ?p)) 850,
                             deviation_percent = Num 0\<rparr>,
                     rf_monsoon_analysis = Some \<lparr>intensity = ''Normal'', peak_month = ''2024-07''\<rparr>\<rparr>"
    by (simp add: getRainfallData_def assms log_call_def)
  have rd: "resolveRoof e ?p = Inr ?rd"
    by (simp add: resolveRoof_def p detectRoofArea_def truthy_str_def)
  have fs: "\<exists>fs. getFeasibilityAnalysis (log_ok e) (feasibility_reply e) (resolvedArea ?p ?rd) rain
                    = Inr fs" for rain
    by (simp add: getFeasibilityAnalysis_def assms log_call_def)
  then obtain fs where fs:
    "getFeasibilityAnalysis (log_ok e) (feasibility_reply e) (resolvedArea ?p ?rd)
       (total_rainfall \<lparr>total_rainfall =
                           lookup_or regionalRainfall
                             (determineRegion (latitude ?p) (longitude ?p)) 850,
                        deviation_percent = Num 0\<rparr>) = Inr fs"
    by blast
  have fx: "roofEffects ?p w' = w'" for w'
    by (simp add: roofEffects_def p truthy_str_def)
  have area: "resolvedArea ?p ?rd = (if truthy (of_opt r) then of_opt r else Num 100)"
    by (simp add: resolvedArea_def p roofFallback_def lookup_or_def lookup_def roofEstimations_def
          js_or_def)
  have "computeAssessment e ?p w =
           (Inr (completed e ?p \<lparr>hh_size = Num 4, monthly_income = Null\<rparr> (resolvedArea ?p ?rd)
                   (assembleSteps ?p \<lparr>hh_size = Num 4, monthly_income = Null\<rparr>
                      \<lparr>rf_status = Some ''estimated'',
                       rf_annual_prediction =
                         Some \<lparr>total_rainfall =
                                  lookup_or regionalRainfall
                                    (determineRegion (latitude ?p) (longitude ?p)) 850,
                               deviation_percent = Num 0\<rparr>,
                       rf_monsoon_analysis =
                         Some \<lparr>intensity = ''Normal'', peak_month = ''2024-07''\<rparr>\<rparr>
                      ?rd (resolvedArea ?p ?rd)
                      (total_rainfall \<lparr>total_rainfall =
                           lookup_or regionalRainfall
                             (determineRegion (latitude ?p) (longitude ?p)) 850,
                        deviation_percent = Num 0\<rparr>) fs)),
            emit FeasibilityCalculate (roofEffects ?p (emit RainfallPredict w)))"
    by (rule computeAssessment_Inr [OF scenario_household rf _ rd fs]) simp
  moreover have "roof_area (a_building (completed e ?p hh (resolvedArea ?p ?rd) s))
                   = (if truthy (of_opt r) then of_opt r else Num 100)" for hh s
    by (simp add: completed_def area)
  ultimately show ?thesis by (simp add: fx)
qed

lemma scenario_run:
  "\<exists>a. performAssessment (offline i t1 t2) (scenario_params\<lparr>roofArea := r\<rparr>) w =
          (if getCache True True w t1 (generateCacheKey (scenario_params\<lparr>roofArea := r\<rparr>)) = Inr None
           then (Inr a,
                 snd (setCache True True
                        ((emit StoreInsert (emit FeasibilityCalculate (emit RainfallPredict w)))
                           \<lparr>store := store w @ [a]\<rparr>)
                        t2 (generateCacheKey (scenario_params\<lparr>roofArea := r\<rparr>)) a cacheTtl))
           else performAssessment (offline i t1 t2) (scenario_params\<lparr>roofArea := r\<rparr>) w)
      \<and> roof_area (a_building a) = (if truthy (of_opt r) then of_opt r else Num 100)
      \<and> a_id a = i \<and> cached a = False"
proof -
  let ?p = "scenario_params\<lparr>roofArea := r\<rparr>"
  let ?e = "offline i t1 t2"
  from scenario_computes [of ?e _ _ _ r w, OF offline_fields(1,8,9,10)]
  obtain a where c: "computeAssessment ?e ?p w
                       = (Inr a, emit FeasibilityCalculate (emit RainfallPredict w))"
    and ra: "roof_area (a_building a) = (if truthy (of_opt r) then of_opt r else Num 100)"
    by blast
  have "getCache True True w t1 (generateCacheKey ?p) = Inr None \<Longrightarrow>
      performAssessment ?e ?p w = (Inr a,
        snd (setCache True True
               ((emit StoreInsert (emit FeasibilityCalculate (emit RainfallPredict w)))
                  \<lparr>store := store w @ [a]\<rparr>)
               t2 (generateCacheKey ?p) a cacheTtl))"
    using performAssessment_computes [of ?e w ?p a, OF offline_fields(1) _ c offline_fields(4)]
    by (simp add: offline_fields emit_def)
  then show ?thesis
    using ra computeAssessment_fresh [OF c] by (intro exI [of _ a]) (simp add: offline_fields)
qed

lemma scenario_params_120: "scenario_params\<lparr>roofArea := Some 120\<rparr> = scenario_params"
  by (simp add: scenario_params_def)

lemma first_call_run:
  "\<exists>a. first_call = (Inr a,
       snd (setCache True True
              ((emit StoreInsert (emit FeasibilityCalculate (emit RainfallPredict empty_world)))
                 \<lparr>store := store empty_world @ [a]\<rparr>)
              2000 (generateCacheKey scenario_params) a cacheTtl))
     \<and> a_id a = ''a-1''"
proof -
  from scenario_run [of "''a-1''" 0 2000 "Some 120" empty_world]
  obtain a where "performAssessment (offline ''a-1'' 0 2000) scenario_params empty_world =
      (Inr a, snd (setCache True True
              ((emit StoreInsert (emit FeasibilityCalculate (emit RainfallPredict empty_world)))
                 \<lparr>store := store empty_world @ [a]\<rparr>)
              2000 (generateCacheKey scenario_params) a cacheTtl))"
    and "a_id a = ''a-1''"
    unfolding scenario_params_120 by (auto simp: empty_world_miss)
  then show ?thesis unfolding first_call_def by blast
qed

lemma second_call_run:
  "\<exists>a. fst first_call = Inr a \<and> a_id a = ''a-1''
      \<and> second_call = (Inr ((json_assessment a)\<lparr>a_id := ''a-2'', cached := True\<rparr>), snd first_call)"
proof -
  from first_call_run obtain a w1 where f: "first_call = (Inr a, w1)" and i: "a_id a = ''a-1''"
    by blast
  have "performAssessment (offline ''a-2'' 60000 62000) scenario_params w1 =
      (Inr ((json_assessment a)\<lparr>a_id := fresh_id (offline ''a-2'' 60000 62000), cached := True\<rparr>),
       w1)"
    by (rule performAssessment_hit_after_miss
               [of "offline ''a-1'' 0 2000" scenario_params empty_world])
       (simp_all add: f [unfolded first_call_def] empty_world_miss offline_fields cacheTtl_def)
  then show ?thesis
    unfolding second_call_def f by (simp add: i offline_fields)
qed

lemma auto_call_run:
  "\<exists>a. auto_call = (Inr a,
       snd (setCache True True
              ((emit StoreInsert (emit FeasibilityCalculate (emit RainfallPredict empty_world)))
                 \<lparr>store := store empty_world @ [a]\<rparr>)
              2000 (generateCacheKey (scenario_params\<lparr>roofArea := None\<rparr>)) a cacheTtl))
     \<and> roof_area (a_building a) = Num 100"
proof -
  from scenario_run [of "''b-1''" 0 2000 None empty_world]
  obtain a where
    "performAssessment (offline ''b-1'' 0 2000) (scenario_params\<lparr>roofArea := None\<rparr>) empty_world =
      (Inr a, snd (setCache True True
              ((emit StoreInsert (emit FeasibilityCalculate (emit RainfallPredict empty_world)))
                 \<lparr>store := store empty_world @ [a]\<rparr>)
              2000 (generateCacheKey (scenario_params\<lparr>roofArea := None\<rparr>)) a cacheTtl))"
    and "roof_area (a_building a) = Num 100"
    by (auto simp: empty_world_miss of_opt_def)
  then show ?thesis unfolding auto_call_def by blast
qed

lemma explicit_call_run:
  "\<exists>a. explicit_call = (Inr a,
       snd (setCache True True
              ((emit StoreInsert (emit FeasibilityCalculate (emit RainfallPredict (snd auto_call))))
                 \<lparr>store := store (snd auto_call) @ [a]\<rparr>)
              62000 (generateCacheKey (scenario_params\<lparr>roofArea := Some 100\<rparr>)) a cacheTtl))
     \<and> roof_area (a_building a) = Num 100 \<and> cached a = False"
proof -
  from auto_call_run obtain b where
    "auto_call = (Inr b,
       snd (setCache True True
              ((emit StoreInsert (emit FeasibilityCalculate (emit RainfallPredict empty_world)))
                 \<lparr>store := store empty_world @ [b]\<rparr>)
              2000 (generateCacheKey (scenario_params\<lparr>roofArea := None\<rparr>)) b cacheTtl))"
    by blast
  then have
    w: "snd auto_call =
       snd (setCache True True
              ((emit StoreInsert (emit FeasibilityCalculate (emit RainfallPredict empty_world)))
                 \<lparr>store := store empty_world @ [b]\<rparr>)
              2000 (generateCacheKey (scenario_params\<lparr>roofArea := None\<rparr>)) b cacheTtl)"
    by (rule arg_cong [where f = snd, THEN trans]) simp
  have m: "getCache True True (snd auto_call) 60000
             (generateCacheKey (scenario_params\<lparr>roofArea := Some 100\<rparr>)) = Inr None"
    unfolding w
    by (simp add: getCache_def setCache_def log_call_def emit_def empty_world_def
          generateCacheKey_def scenario_params_def of_opt_def)
  from scenario_run [of "''b-2''" 60000 62000 "Some 100" "snd auto_call"]
  obtain a where
    "performAssessment (offline ''b-2'' 60000 62000) (scenario_params\<lparr>roofArea := Some 100\<rparr>)
       (snd auto_call) =
      (Inr a, snd (setCache True True
              ((emit StoreInsert (emit FeasibilityCalculate (emit RainfallPredict (snd auto_call))))
                 \<lparr>store := store (snd auto_call) @ [a]\<rparr>)
              62000 (generateCacheKey (scenario_params\<lparr>roofArea := Some 100\<rparr>)) a cacheTtl))"
    and "roof_area (a_building a) = Num 100" "cached a = False"
    by (auto simp: m of_opt_def)
  then show ?thesis unfolding explicit_call_def by blast
qed

lemma store_down_fields:
  "log_ok store_down" "cache_get_ok store_down" "t_start store_down = 0"
  "store_error store_down = Some ''Connection terminated unexpectedly''"
  "rainfall_reply store_down = Rejects ''connect ECONNREFUSED''"
  "roof_reply store_down = Rejects ''connect ECONNREFUSED''"
  "feasibility_reply store_down = Rejects ''connect ECONNREFUSED''"
  by (simp_all add: store_down_def offline_def)

lemma store_down_computes:
  "\<exists>a w1. computeAssessment store_down scenario_params empty_world = (Inr a, w1)"
  using scenario_computes [of store_down _ _ _ "Some 120" empty_world,
          OF store_down_fields(1,5,6,7)]
  unfolding scenario_params_120 by blast

text \<open>
  Claim C4 as stated fails: when the insert on the store raises, the call raises too. In
  the end-to-end scenario with a store that is down, the computation completes and the
  call fails with the error of the store.
\<close>

theorem store_failure_fails_the_call:
  "\<not> isl (fst (computeAssessment store_down scenario_params empty_world))
   \<and> fst (performAssessment store_down scenario_params empty_world) =
       Inl (AssessmentFailed (StoreError ''Connection terminated unexpectedly''))"
proof -
  from store_down_computes obtain a w1 where
    c: "computeAssessment store_down scenario_params empty_world = (Inr a, w1)" by blast
  show ?thesis
    by (simp add: performAssessment_def attempt_def log_call_def saveAssessment_def c
          empty_world_miss store_down_fields)
qed

text \<open>
  Claim C4, amended: for every request that misses the cache and whose computation
  completes, if the store write fails (and the exported logger has its level methods)
  then \<open>performAssessment\<close> raises "Assessment failed" with the message of the store's
  error and returns no result; the cache and the store are as they were before the call.
  With a logger that lacks its level methods the same call raises a \<^verbatim>\<open>TypeError\<close> at once
  and returns no result either.
\<close>

theorem store_failure_is_raised:
  assumes logs: "log_ok e"
    and miss: "getCache True (cache_get_ok e) w (t_start e) (generateCacheKey p) = Inr None"
    and complete: "computeAssessment e p w = (Inr a, w1)"
    and fails: "store_error e = Some msg"
  shows "performAssessment e p w = (Inl (AssessmentFailed (StoreError msg)), emit StoreInsert w1)
    \<and> cache (emit StoreInsert w1) = cache w \<and> store (emit StoreInsert w1) = store w
    \<and> performAssessment (e\<lparr>log_ok := False\<rparr>) p w
        = (Inl (Uncaught (NotAFunction ''logger.error'')), w)"
  using computeAssessment_world [OF complete]
  by (simp add: performAssessment_def attempt_def logs log_call_def saveAssessment_def miss
        complete fails emit_def)

theorem store_failure_is_raised_witness:
  "performAssessment store_down scenario_params empty_world =
     (Inl (AssessmentFailed (StoreError ''Connection terminated unexpectedly'')),
      emit StoreInsert (snd (computeAssessment store_down scenario_params empty_world)))
   \<and> cache (snd (performAssessment store_down scenario_params empty_world)) = cache empty_world
   \<and> store (snd (performAssessment store_down scenario_params empty_world)) = store empty_world"
proof -
  from store_down_computes obtain a w1 where
    c: "computeAssessment store_down scenario_params empty_world = (Inr a, w1)" by blast
  show ?thesis
    using store_failure_is_raised
            [OF store_down_fields(1) empty_world_miss c store_down_fields(4)]
    by (simp add: c)
qed

text \<open>
  Claim C1 as stated fails twice. The same request sent again one minute later is served
  from the cache under a new identifier, so the two results differ in more than the
  marker: the first has the identifier \<open>a-1\<close>, the second \<open>a-2\<close>. And the key is built from
  the roof area of the request, not from the resolved one: a request without a roof area
  (resolved to 100) and then the same request with the roof area 100 have different
  keys, so the second is not served from the cache and calls the collaborators and the
  store again.
\<close>

theorem second_call_differs_or_recomputes:
  "map_sum id a_id (fst first_call) = Inr ''a-1''
   \<and> map_sum id a_id (fst second_call) = Inr ''a-2''
   \<and> map_sum id (\<lambda>a. roof_area (a_building a)) (fst auto_call) = Inr (Num 100)
   \<and> map_sum id (\<lambda>a. roof_area (a_building a)) (fst explicit_call) = Inr (Num 100)
   \<and> map_sum id cached (fst explicit_call) = Inr False
   \<and> effects (snd explicit_call) =
       effects (snd auto_call) @ [RainfallPredict, FeasibilityCalculate, StoreInsert]"
proof -
  from second_call_run obtain a where
    a: "fst first_call = Inr a" "a_id a = ''a-1''"
    "second_call = (Inr ((json_assessment a)\<lparr>a_id := ''a-2'', cached := True\<rparr>), snd first_call)"
    by blast
  have A: "map_sum id a_id (fst first_call) = Inr ''a-1''"
      "map_sum id a_id (fst second_call) = Inr ''a-2''"
    by (simp_all add: a)
  from auto_call_run obtain b w where
    b: "auto_call = (Inr b, w)" "roof_area (a_building b) = Num 100"
    by blast
  have B: "map_sum id (\<lambda>a. roof_area (a_building a)) (fst auto_call) = Inr (Num 100)"
    by (simp add: b)
  from explicit_call_run obtain c where
    c: "explicit_call = (Inr c,
       snd (setCache True True
              ((emit StoreInsert (emit FeasibilityCalculate (emit RainfallPredict (snd auto_call))))
                 \<lparr>store := store (snd auto_call) @ [c]\<rparr>)
              62000 (generateCacheKey (scenario_params\<lparr>roofArea := Some 100\<rparr>)) c cacheTtl))"
     and c': "roof_area (a_building c) = Num 100" "cached c = False"
    by blast
  have C: "map_sum id (\<lambda>a. roof_area (a_building a)) (fst explicit_call) = Inr (Num 100)"
      "map_sum id cached (fst explicit_call) = Inr False"
      "effects (snd explicit_call) =
         effects (snd auto_call) @ [RainfallPredict, FeasibilityCalculate, StoreInsert]"
    by (simp_all add: c c' setCache_def log_call_def emit_def)
  show ?thesis using A B C by simp
qed

text \<open>
  Claim C1, amended: when a call misses the cache, returns a result and the cache accepts
  the write, a following call whose key (latitude, longitude, building type, and the roof
  area of the request or "auto") is the same, that starts within the 86400 seconds of
  the entry, whose read the cache answers and whose logger has its level methods,
  returns what the cache holds with a new identifier and the marker \<open>cached\<close>, and leaves
  the outside as it was: no collaborator is called and nothing is stored. What the cache
  holds is the first result as it comes back from JSON: every number that is not finite
  has become \<^verbatim>\<open>null\<close>, and a field that held a function is gone. With a logger that lacks its level methods the second call raises
  a \<^verbatim>\<open>TypeError\<close> at once.
\<close>

theorem cache_hit_returns_cached_copy:
  assumes first: "performAssessment e1 p1 w = (Inr a1, w1)"
    and miss: "getCache (log_ok e1) (cache_get_ok e1) w (t_start e1) (generateCacheKey p1) = Inr None"
    and up: "cache_set_ok e1" "cache_get_ok e2" "log_ok e2"
    and key: "generateCacheKey p2 = generateCacheKey p1"
    and ttl: "t_start e2 < t_end e1 + cacheTtl * 1000"
  shows "performAssessment e2 p2 w1 =
           (Inr ((json_assessment a1)\<lparr>a_id := fresh_id e2, cached := True\<rparr>), w1)
    \<and> performAssessment (e2\<lparr>log_ok := False\<rparr>) p2 w1
        = (Inl (Uncaught (NotAFunction ''logger.error'')), w1)"
  using performAssessment_hit_after_miss [OF first miss up key ttl]
  by (simp add: performAssessment_without_logger)

theorem cache_hit_returns_cached_copy_witness:
  "\<not> isl (fst first_call)
   \<and> second_call =
       (map_sum id (\<lambda>a. (json_assessment a)\<lparr>a_id := ''a-2'', cached := True\<rparr>) (fst first_call),
        snd first_call)"
proof -
  from first_call_run obtain a w1 where f: "first_call = (Inr a, w1)" by blast
  have "performAssessment (offline ''a-2'' 60000 62000) scenario_params w1 =
      (Inr ((json_assessment a)\<lparr>a_id := fresh_id (offline ''a-2'' 60000 62000), cached := True\<rparr>),
       w1)"
    using cache_hit_returns_cached_copy
            [of "offline ''a-1'' 0 2000" scenario_params empty_world a w1
                "offline ''a-2'' 60000 62000" scenario_params]
    by (simp add: f [unfolded first_call_def] empty_world_miss offline_fields cacheTtl_def)
  then show ?thesis
    unfolding second_call_def f by (simp add: offline_fields)
qed

end
